theory Spec2Isabelle
  imports Complex_Main "HOL-Library.Sublist" "HOL-Library.Multiset"
    "HOL-Library.Char_ord" "HOL-Library.List_Lexorder" "HOL-Library.Product_Lexorder"
begin

section \<open>Conventions of the embedding\<close>

text \<open>
  The development embeds the usage analytics and alerting layer of the CRM backend:
  \<^verbatim>\<open>backend/app/services/intelligent_alerts.py\<close>,
  \<^verbatim>\<open>backend/app/services/analytics_engine.py\<close> and the connection manager of
  \<^verbatim>\<open>backend/app/apis/agent_usage/__init__.py\<close>.

  \<^item> A Python \<^verbatim>\<open>datetime\<close> is an \<open>int\<close>: microseconds since the epoch, UTC.
  \<^item> A Python \<^verbatim>\<open>float\<close> is a \<open>real\<close>. Where a result is compared with a threshold
    after several floating-point operations (the user insights), every operation is
    followed by the rounding \<open>fl\<close> to the nearest double, a parameter of the model;
    elsewhere rounding is not modelled.
  \<^item> A Python \<^verbatim>\<open>dict\<close> whose iteration order is observed is an association list in
    insertion order.
  \<^item> The rows of a \<^verbatim>\<open>GROUP BY\<close> query without \<^verbatim>\<open>ORDER BY\<close> come in ascending order of
    the grouping columns, as PostgreSQL returns them when it groups by sorting (strings
    compared character by character).
  \<^item> Text produced by f-strings with number formatting (titles, messages, descriptions)
    is carried as an opaque string supplied by the caller of the model.
\<close>

type_synonym datetime = int

definition minutes :: "int \<Rightarrow> int" where
  "minutes m = m * 60000000"

definition days :: "int \<Rightarrow> int" where
  "days d = d * 86400000000"

text \<open>\<^verbatim>\<open>sorted(xs, key=f, reverse=True)\<close>: CPython reverses the list, sorts it stably in
  ascending order of the key and reverses the result, so equal keys keep their order.\<close>

definition sorted_reverse :: "('a \<Rightarrow> 'k::linorder) \<Rightarrow> 'a list \<Rightarrow> 'a list" where
  "sorted_reverse f xs = rev (sort_key f (rev xs))"

text \<open>\<^verbatim>\<open>xs[:n]\<close> for a Python int \<open>n\<close>: a negative bound counts from the end.\<close>

definition slice_to :: "int \<Rightarrow> 'a list \<Rightarrow> 'a list" where
  "slice_to n xs =
     (if 0 \<le> n then take (nat n) xs else take (length xs - nat (- n)) xs)"

text \<open>\<^verbatim>\<open>d[k] = v\<close> on an insertion-ordered dict: an existing key keeps its position.\<close>

fun dict_set :: "('k \<times> 'v) list \<Rightarrow> 'k \<Rightarrow> 'v \<Rightarrow> ('k \<times> 'v) list" where
  "dict_set [] k v = [(k, v)]"
| "dict_set ((k', v') # d) k v =
     (if k' = k then (k, v) # d else (k', v') # dict_set d k v)"

text \<open>\<^verbatim>\<open>del d[k]\<close>.\<close>

definition dict_del :: "('k \<times> 'v) list \<Rightarrow> 'k \<Rightarrow> ('k \<times> 'v) list" where
  "dict_del d k = filter (\<lambda>kv. fst kv \<noteq> k) d"

section \<open>Intelligent alerts service\<close>

subsection \<open>Data model\<close>

datatype AlertType =
    USAGE_LIMIT_APPROACHING
  | USAGE_LIMIT_EXCEEDED
  | ANOMALY_DETECTED
  | CHURN_RISK
  | UPGRADE_OPPORTUNITY
  | PERFORMANCE_DEGRADATION
  | SUSPICIOUS_ACTIVITY
  | AGENT_OVERLOAD
  | USER_INACTIVE
  | RAPID_USAGE_SPIKE

fun AlertType_value :: "AlertType \<Rightarrow> string" where
  "AlertType_value USAGE_LIMIT_APPROACHING = ''usage_limit_approaching''"
| "AlertType_value USAGE_LIMIT_EXCEEDED = ''usage_limit_exceeded''"
| "AlertType_value ANOMALY_DETECTED = ''anomaly_detected''"
| "AlertType_value CHURN_RISK = ''churn_risk''"
| "AlertType_value UPGRADE_OPPORTUNITY = ''upgrade_opportunity''"
| "AlertType_value PERFORMANCE_DEGRADATION = ''performance_degradation''"
| "AlertType_value SUSPICIOUS_ACTIVITY = ''suspicious_activity''"
| "AlertType_value AGENT_OVERLOAD = ''agent_overload''"
| "AlertType_value USER_INACTIVE = ''user_inactive''"
| "AlertType_value RAPID_USAGE_SPIKE = ''rapid_usage_spike''"

datatype AlertSeverity = LOW | MEDIUM | HIGH | CRITICAL

fun AlertSeverity_value :: "AlertSeverity \<Rightarrow> string" where
  "AlertSeverity_value LOW = ''low''"
| "AlertSeverity_value MEDIUM = ''medium''"
| "AlertSeverity_value HIGH = ''high''"
| "AlertSeverity_value CRITICAL = ''critical''"

datatype AlertChannel = EMAIL | SLACK | WEBHOOK | DASHBOARD | SMS

text \<open>The dataclass \<^verbatim>\<open>AlertRule\<close>. Its \<^verbatim>\<open>conditions\<close> dict and its two timestamps are
  never read by the service and are left out; \<^verbatim>\<open>id\<close> is \<open>rule_key\<close>.\<close>

record AlertRule =
  rule_key :: string
  rule_name :: string
  rule_alert_type :: AlertType
  rule_severity :: AlertSeverity
  channels :: "AlertChannel list"
  cooldown_minutes :: int
  enabled :: bool

text \<open>The dataclass \<^verbatim>\<open>Alert\<close>; \<^verbatim>\<open>id\<close> is \<open>alert_id\<close>. The \<^verbatim>\<open>metadata\<close> dict is written
  once and only serialised, so it is left out.\<close>

record Alert =
  alert_id :: string
  rule_id :: string
  alert_type :: AlertType
  severity :: AlertSeverity
  title :: string
  message :: string
  user_id :: "string option"
  agent_id :: "string option"
  triggered_at :: datetime
  resolved_at :: "datetime option"
  acknowledged_at :: "datetime option"
  acknowledged_by :: "string option"
  channels_sent :: "AlertChannel list"
  auto_resolved :: bool

text \<open>A row of the table \<^verbatim>\<open>usage_alerts\<close>, with the columns the service writes.\<close>

record usage_alert_row =
  row_id :: string
  row_user_id :: "string option"
  row_alert_type :: string
  row_message :: string
  row_triggered_at :: datetime
  row_severity :: string
  row_resolved_at :: "datetime option"
  row_acknowledged_at :: "datetime option"
  row_acknowledged_by :: "string option"

text \<open>
  The state of \<^verbatim>\<open>IntelligentAlertsService\<close> together with the database it talks to.
  \<open>Alert\<close> objects are shared between \<^verbatim>\<open>active_alerts\<close>, \<^verbatim>\<open>alert_history\<close> and the
  notification queue, so they live in \<open>heap\<close> (address = index) and the three
  containers hold addresses. \<open>db_available\<close> is False when \<^verbatim>\<open>get_database\<close> or a
  query raises.
\<close>

record service =
  alert_rules :: "(string \<times> AlertRule) list"
  heap :: "Alert list"
  active_alerts :: "(string \<times> nat) list"
  alert_history :: "nat list"
  notification_queue :: "(nat \<times> AlertChannel list) list"
  usage_alerts :: "usage_alert_row list"
  db_available :: bool

subsection \<open>Default rules\<close>

definition default_rules :: "(string \<times> AlertRule) list" where
  "default_rules =
   [(''usage_approaching'',
       \<lparr>rule_key = ''usage_approaching'', rule_name = ''Limite de Uso Aproximandose'',
        rule_alert_type = USAGE_LIMIT_APPROACHING, rule_severity = MEDIUM,
        channels = [DASHBOARD, EMAIL], cooldown_minutes = 120, enabled = True\<rparr>),
    (''usage_exceeded'',
       \<lparr>rule_key = ''usage_exceeded'', rule_name = ''Limite de Uso Excedido'',
        rule_alert_type = USAGE_LIMIT_EXCEEDED, rule_severity = CRITICAL,
        channels = [DASHBOARD, EMAIL, SLACK], cooldown_minutes = 60, enabled = True\<rparr>),
    (''churn_risk'',
       \<lparr>rule_key = ''churn_risk'', rule_name = ''Riesgo de Churn Detectado'',
        rule_alert_type = CHURN_RISK, rule_severity = HIGH,
        channels = [DASHBOARD, SLACK], cooldown_minutes = 1440, enabled = True\<rparr>),
    (''upgrade_opportunity'',
       \<lparr>rule_key = ''upgrade_opportunity'', rule_name = ''Oportunidad de Upgrade'',
        rule_alert_type = UPGRADE_OPPORTUNITY, rule_severity = LOW,
        channels = [DASHBOARD], cooldown_minutes = 2880, enabled = True\<rparr>),
    (''anomaly'',
       \<lparr>rule_key = ''anomaly'', rule_name = ''Anomalia en Uso Detectada'',
        rule_alert_type = ANOMALY_DETECTED, rule_severity = MEDIUM,
        channels = [DASHBOARD, SLACK], cooldown_minutes = 180, enabled = True\<rparr>),
    (''user_inactive'',
       \<lparr>rule_key = ''user_inactive'', rule_name = ''Usuario Inactivo'',
        rule_alert_type = USER_INACTIVE, rule_severity = MEDIUM,
        channels = [DASHBOARD, EMAIL], cooldown_minutes = 1440, enabled = True\<rparr>)]"

text \<open>\<^verbatim>\<open>__init__\<close>: the registry of default rules, nothing else yet; the database is
  given.\<close>

definition init_service :: "usage_alert_row list \<Rightarrow> bool \<Rightarrow> service" where
  "init_service table up =
     \<lparr>alert_rules = default_rules, heap = [], active_alerts = [], alert_history = [],
      notification_queue = [], usage_alerts = table, db_available = up\<rparr>"

subsection \<open>Triggering\<close>

text \<open>\<^verbatim>\<open>user_id or agent_id or 'global'\<close>: \<^verbatim>\<open>None\<close> and the empty string are falsy.\<close>

definition subject_key :: "string option \<Rightarrow> string option \<Rightarrow> string" where
  "subject_key uid aid =
     (case uid of
        Some u \<Rightarrow> if u \<noteq> [] then u
                  else (case aid of Some a \<Rightarrow> if a \<noteq> [] then a else ''global''
                                  | None \<Rightarrow> ''global'')
      | None \<Rightarrow> (case aid of Some a \<Rightarrow> if a \<noteq> [] then a else ''global''
                            | None \<Rightarrow> ''global''))"

text \<open>\<^verbatim>\<open>_is_in_cooldown\<close>: a row whose \<^verbatim>\<open>alert_type\<close> column equals the key and that is
  newer than the threshold; False when the query raises.\<close>

definition is_in_cooldown :: "service \<Rightarrow> string \<Rightarrow> int \<Rightarrow> datetime \<Rightarrow> bool" where
  "is_in_cooldown s alert_key cooldown now =
     (if db_available s then
        (let cooldown_threshold = now - minutes cooldown
         in list_ex (\<lambda>row. row_alert_type row = alert_key
                            \<and> row_triggered_at row > cooldown_threshold) (usage_alerts s))
      else False)"

text \<open>\<^verbatim>\<open>_save_alert_to_db\<close>: the INSERT; an exception is logged and swallowed.\<close>

definition save_alert_to_db :: "service \<Rightarrow> Alert \<Rightarrow> service" where
  "save_alert_to_db s alert =
     (if db_available s then
        s\<lparr>usage_alerts := usage_alerts s @
            [\<lparr>row_id = alert_id alert, row_user_id = user_id alert,
              row_alert_type = AlertType_value (alert_type alert),
              row_message = message alert, row_triggered_at = triggered_at alert,
              row_severity = AlertSeverity_value (severity alert),
              row_resolved_at = None, row_acknowledged_at = None,
              row_acknowledged_by = None\<rparr>]\<rparr>
      else s)"

text \<open>
  \<^verbatim>\<open>_trigger_alert\<close>. \<open>uuid4 n\<close> is the identifier drawn for the \<open>n\<close>-th \<open>Alert\<close> object
  the service allocates (\<^verbatim>\<open>uuid.uuid4()\<close> is called nowhere else), \<open>now\<close> the clock
  during the call.
\<close>

definition trigger_alert ::
  "(nat \<Rightarrow> string) \<Rightarrow> datetime \<Rightarrow> service \<Rightarrow> string \<Rightarrow> string \<Rightarrow> string
     \<Rightarrow> string option \<Rightarrow> string option \<Rightarrow> service" where
  "trigger_alert uuid4 now s rid ttl msg uid aid =
     (case map_of (alert_rules s) rid of
        None \<Rightarrow> s
      | Some rule \<Rightarrow>
          if \<not> enabled rule then s
          else
            let alert_key = rid @ ''_'' @ subject_key uid aid in
            if is_in_cooldown s alert_key (cooldown_minutes rule) now then s
            else
              let ref = length (heap s);
                  alert = \<lparr>alert_id = uuid4 ref, rule_id = rid,
                           alert_type = rule_alert_type rule,
                           severity = rule_severity rule,
                           title = ttl, message = msg, user_id = uid, agent_id = aid,
                           triggered_at = now, resolved_at = None,
                           acknowledged_at = None, acknowledged_by = None,
                           channels_sent = [], auto_resolved = False\<rparr>;
                  s1 = s\<lparr>heap := heap s @ [alert],
                         active_alerts := dict_set (active_alerts s) (alert_id alert) ref,
                         alert_history := alert_history s @ [ref]\<rparr>;
                  s2 = save_alert_to_db s1 alert
              in s2\<lparr>notification_queue := notification_queue s2 @ [(ref, channels rule)]\<rparr>)"

subsection \<open>Reading and lifecycle\<close>

text \<open>\<^verbatim>\<open>self.active_alerts.values()\<close>.\<close>

definition active_values :: "service \<Rightarrow> Alert list" where
  "active_values s = map (\<lambda>kv. heap s ! snd kv) (active_alerts s)"

text \<open>\<^verbatim>\<open>get_active_alerts\<close>; the result is paired with the state the call leaves.\<close>

definition get_active_alerts :: "service \<Rightarrow> int \<Rightarrow> Alert list \<times> service" where
  "get_active_alerts s limit =
     (slice_to limit (sorted_reverse triggered_at (active_values s)), s)"

text \<open>\<^verbatim>\<open>acknowledge_alert\<close>: the object is changed before the UPDATE is issued; an
  exception of the UPDATE gives False.\<close>

definition acknowledge_alert ::
  "datetime \<Rightarrow> service \<Rightarrow> string \<Rightarrow> string \<Rightarrow> bool \<times> service" where
  "acknowledge_alert now s aid who =
     (case map_of (active_alerts s) aid of
        None \<Rightarrow> (False, s)
      | Some ref \<Rightarrow>
          let s1 = s\<lparr>heap := (heap s)[ref := (heap s ! ref)
                       \<lparr>acknowledged_at := Some now, acknowledged_by := Some who\<rparr>]\<rparr>
          in if db_available s1 then
               (True, s1\<lparr>usage_alerts := map (\<lambda>row. if row_id row = aid
                            then row\<lparr>row_acknowledged_at := Some now,
                                     row_acknowledged_by := Some who\<rparr>
                            else row) (usage_alerts s1)\<rparr>)
             else (False, s1))"

text \<open>\<^verbatim>\<open>resolve_alert\<close>; \<^verbatim>\<open>resolved_by\<close> is not used by the source.\<close>

definition resolve_alert ::
  "datetime \<Rightarrow> service \<Rightarrow> string \<Rightarrow> string \<Rightarrow> bool \<times> service" where
  "resolve_alert now s aid resolved_by =
     (case map_of (active_alerts s) aid of
        None \<Rightarrow> (False, s)
      | Some ref \<Rightarrow>
          let s1 = s\<lparr>heap := (heap s)[ref := (heap s ! ref)\<lparr>resolved_at := Some now\<rparr>]\<rparr>
          in if db_available s1 then
               (True, s1\<lparr>usage_alerts := map (\<lambda>row. if row_id row = aid
                            then row\<lparr>row_resolved_at := Some now\<rparr>
                            else row) (usage_alerts s1)\<rparr>)
             else (False, s1))"

text \<open>One iteration of the loop of \<^verbatim>\<open>_alert_cleanup\<close>.\<close>

definition alert_cleanup :: "datetime \<Rightarrow> service \<Rightarrow> service" where
  "alert_cleanup current_time s =
     (let cutoff_time = current_time - days 7;
          history = filter (\<lambda>ref. triggered_at (heap s ! ref) > cutoff_time)
                      (alert_history s);
          resolved_alerts = map fst (filter (\<lambda>kv. resolved_at (heap s ! snd kv) \<noteq> None)
                                       (active_alerts s))
      in s\<lparr>alert_history := history,
           active_alerts := fold (\<lambda>k d. dict_del d k) resolved_alerts (active_alerts s)\<rparr>)"

text \<open>Every address held by the active set is allocated.\<close>

definition refs_allocated :: "service \<Rightarrow> bool" where
  "refs_allocated s = list_all (\<lambda>kv. snd kv < length (heap s)) (active_alerts s)"

subsection \<open>Monitors\<close>



definition response_time_degradation :: real where
  "response_time_degradation = 5000"

datatype py_error = ValueError | DatabaseError


definition tier_limits :: "(string \<times> int) list" where
  "tier_limits =
     [(''essential'', 50000), (''pro'', 150000), (''elite'', 500000),
      (''prime'', 1000000), (''longevity'', 1000000)]"

text \<open>\<^verbatim>\<open>tier_limits.get(tier, 50000)\<close>.\<close>

definition tier_limit :: "string \<Rightarrow> int" where
  "tier_limit tier = (case map_of tier_limits tier of Some l \<Rightarrow> l | None \<Rightarrow> 50000)"





text \<open>The selection of \<section>4.4 of the specification, in its words: exceeded first, then
  approaching, then upgrade candidate, the first match wins.\<close>

definition spec_usage_choice :: "real \<Rightarrow> string \<Rightarrow> int \<Rightarrow> string option" where
  "spec_usage_choice pct tier active =
     (if pct \<ge> 95 / 100 then Some ''usage_exceeded''
      else if pct \<ge> 80 / 100 \<and> pct < 95 / 100 then Some ''usage_approaching''
      else if pct \<ge> 85 / 100 \<and> (tier = ''essential'' \<or> tier = ''pro'') \<and> active \<ge> 15
        then Some ''upgrade_opportunity''
      else None)"


text \<open>The fields of \<^verbatim>\<open>AgentPerformanceMetrics\<close> that the performance monitor reads.\<close>

record AgentPerformanceMetrics =
  perf_agent_id :: string
  total_interactions :: int
  avg_response_time :: real
  success_rate :: real

definition agents :: "string list" where
  "agents = [''NEXUS'', ''BLAZE'', ''SAGE'', ''ARIA'', ''CIPHER'', ''ECHO'']"

text \<open>
  The loop of \<^verbatim>\<open>_check_agent_performance\<close>. \<open>analyze a\<close> is the result of
  \<^verbatim>\<open>analytics_engine.analyze_agent_performance(a, 1)\<close>, \<open>None\<close> when it raises (the
  exception ends the cycle).
\<close>

fun performance_loop ::
  "(nat \<Rightarrow> string) \<Rightarrow> datetime \<Rightarrow> (AgentPerformanceMetrics \<Rightarrow> string \<times> string)
     \<Rightarrow> (string \<Rightarrow> AgentPerformanceMetrics option) \<Rightarrow> service \<Rightarrow> string list \<Rightarrow> service" where
  "performance_loop uuid4 now txt analyze s [] = s"
| "performance_loop uuid4 now txt analyze s (a # rest) =
     (case analyze a of
        None \<Rightarrow> s
      | Some performance \<Rightarrow>
          if avg_response_time performance > response_time_degradation
             \<and> total_interactions performance > 10
          then performance_loop uuid4 now txt analyze
                 (trigger_alert uuid4 now s ''performance_degradation''
                    (fst (txt performance)) (snd (txt performance)) None (Some a)) rest
          else performance_loop uuid4 now txt analyze s rest)"

definition check_agent_performance ::
  "(nat \<Rightarrow> string) \<Rightarrow> datetime \<Rightarrow> (AgentPerformanceMetrics \<Rightarrow> string \<times> string)
     \<Rightarrow> (string \<Rightarrow> AgentPerformanceMetrics option) \<Rightarrow> service \<Rightarrow> service" where
  "check_agent_performance uuid4 now txt analyze s =
     performance_loop uuid4 now txt analyze s agents"

section \<open>Analytics engine\<close>

subsection \<open>The event table and SQL helpers\<close>

text \<open>A row of \<^verbatim>\<open>agent_usage_events\<close>, with the columns the queries read.\<close>

record usage_event =
  ev_user_id :: string
  ev_agent_id :: string
  ev_session_id :: string
  tokens_used :: int
  response_time_ms :: int
  ev_timestamp :: datetime
  ev_subscription_tier :: string

text \<open>\<^verbatim>\<open>EXTRACT(HOUR FROM timestamp)\<close> and \<^verbatim>\<open>DATE(timestamp)\<close> (a day number).\<close>

definition hour_of :: "datetime \<Rightarrow> int" where
  "hour_of ts = (ts div 3600000000) mod 24"

definition date_of :: "datetime \<Rightarrow> int" where
  "date_of ts = ts div 86400000000"

text \<open>The distinct values of a column, in order of first appearance.\<close>

fun uniq :: "'a list \<Rightarrow> 'a list" where
  "uniq [] = []"
| "uniq (x # xs) = x # removeAll x (uniq xs)"

text \<open>\<^verbatim>\<open>AVG\<close> over a non-empty group, and \<^verbatim>\<open>statistics.mean\<close> of floats.\<close>

definition mean_real :: "real list \<Rightarrow> real" where
  "mean_real xs = sum_list xs / real (length xs)"

text \<open>\<^verbatim>\<open>statistics.mean\<close> and \<^verbatim>\<open>statistics.stdev\<close> (sample standard deviation) of
  integer data. The source calls them on at least three points only, so their
  \<^verbatim>\<open>StatisticsError\<close> for too few points cannot arise.\<close>

definition mean :: "int list \<Rightarrow> real" where
  "mean xs = real_of_int (sum_list xs) / real (length xs)"

definition variance :: "int list \<Rightarrow> real" where
  "variance xs = (\<Sum>x\<leftarrow>xs. (real_of_int x - mean xs)\<^sup>2) / real (length xs - 1)"

definition stdev :: "int list \<Rightarrow> real" where
  "stdev xs = sqrt (variance xs)"

text \<open>Truthiness of an optional string argument (\<^verbatim>\<open>if user_filter:\<close>).\<close>

definition truthy :: "string option \<Rightarrow> bool" where
  "truthy x = (case x of None \<Rightarrow> False | Some v \<Rightarrow> v \<noteq> [])"

subsection \<open>Usage metrics\<close>

text \<open>The \<^verbatim>\<open>WHERE\<close> clause built by \<^verbatim>\<open>calculate_usage_metrics\<close>.\<close>

definition where_clause ::
  "datetime \<Rightarrow> datetime \<Rightarrow> string option \<Rightarrow> string option \<Rightarrow> usage_event \<Rightarrow> bool" where
  "where_clause start_date end_date user_filter tier_filter e =
     ((start_date \<le> ev_timestamp e \<and> ev_timestamp e \<le> end_date)
      \<and> (if truthy user_filter then Some (ev_user_id e) = user_filter else True)
      \<and> (if truthy tier_filter then Some (ev_subscription_tier e) = tier_filter else True))"

text \<open>A row of the main query: one group of (agent, tier, hour).\<close>

record metrics_row =
  m_total_interactions :: int
  m_total_tokens :: "int option"
  m_unique_users :: int
  m_unique_sessions :: int
  m_avg_response_time :: "real option"
  m_agent_id :: string
  m_subscription_tier :: string
  m_hour :: "int option"

definition group_key :: "usage_event \<Rightarrow> string \<times> string \<times> int" where
  "group_key e = (ev_agent_id e, ev_subscription_tier e, hour_of (ev_timestamp e))"

definition group_row :: "usage_event list \<Rightarrow> string \<times> string \<times> int \<Rightarrow> metrics_row" where
  "group_row es k =
     (let g = filter (\<lambda>e. group_key e = k) es
      in \<lparr>m_total_interactions = int (length g),
          m_total_tokens = Some (sum_list (map tokens_used g)),
          m_unique_users = int (card (set (map ev_user_id g))),
          m_unique_sessions = int (card (set (map ev_session_id g))),
          m_avg_response_time = Some (mean_real (map (\<lambda>e. real_of_int (response_time_ms e)) g)),
          m_agent_id = fst k, m_subscription_tier = fst (snd k),
          m_hour = Some (snd (snd k))\<rparr>)"

text \<open>
  The main query: one row per group of (agent, tier, hour). The source gives no
  \<^verbatim>\<open>ORDER BY\<close>; the rows are listed in ascending order of the three grouping columns.
  Statements about the order of rows below are made for an arbitrary list of rows.
\<close>

definition main_query ::
  "usage_event list \<Rightarrow> datetime \<Rightarrow> datetime \<Rightarrow> string option \<Rightarrow> string option
     \<Rightarrow> metrics_row list" where
  "main_query events start_date end_date user_filter tier_filter =
     (let es = filter (where_clause start_date end_date user_filter tier_filter) events
      in map (group_row es) (sort (remdups (map group_key es))))"

text \<open>The accumulator of a breakdown entry while the rows are summed: \<^verbatim>\<open>'users'\<close> is
  a Python set.\<close>

record breakdown_acc =
  acc_interactions :: int
  acc_tokens :: int
  acc_users :: "string set"

definition breakdown_default :: breakdown_acc where
  "breakdown_default = \<lparr>acc_interactions = 0, acc_tokens = 0, acc_users = {}\<rparr>"

text \<open>An entry of \<^verbatim>\<open>agent_breakdown\<close> or \<^verbatim>\<open>tier_breakdown\<close> as returned: the set is
  replaced by its size. (The agent entries also carry \<^verbatim>\<open>'avg_response_time': 0\<close>,
  a constant.)\<close>

record breakdown_entry =
  interactions :: int
  tokens :: int
  users :: nat

text \<open>\<^verbatim>\<open>d[k]\<close> on a \<^verbatim>\<open>defaultdict\<close>: the value, or the default.\<close>

definition dict_get :: "('k \<times> 'v) list \<Rightarrow> 'k \<Rightarrow> 'v \<Rightarrow> 'v" where
  "dict_get d k dflt = (case map_of d k of Some v \<Rightarrow> v | None \<Rightarrow> dflt)"

text \<open>One pass of \<^verbatim>\<open>for r in results\<close>: the two \<^verbatim>\<open>+=\<close> on the entry of key \<open>k\<close>.\<close>

definition breakdown_step ::
  "(metrics_row \<Rightarrow> string) \<Rightarrow> metrics_row \<Rightarrow> (string \<times> breakdown_acc) list
     \<Rightarrow> (string \<times> breakdown_acc) list" where
  "breakdown_step key r d =
     (let k = key r;
          e = dict_get d k breakdown_default;
          e1 = e\<lparr>acc_interactions := acc_interactions e + m_total_interactions r\<rparr>;
          e2 = e1\<lparr>acc_tokens := acc_tokens e1
                    + (case m_total_tokens r of Some t \<Rightarrow> t | None \<Rightarrow> 0)\<rparr>
      in dict_set d k e2)"

text \<open>The second loop: \<^verbatim>\<open>len(...['users'])\<close>.\<close>

definition breakdown_counts ::
  "(string \<times> breakdown_acc) list \<Rightarrow> (string \<times> breakdown_entry) list" where
  "breakdown_counts d =
     map (\<lambda>kv. (fst kv, \<lparr>interactions = acc_interactions (snd kv),
                          tokens = acc_tokens (snd kv),
                          users = card (acc_users (snd kv))\<rparr>)) d"

definition agent_breakdown :: "metrics_row list \<Rightarrow> (string \<times> breakdown_entry) list" where
  "agent_breakdown results = breakdown_counts (fold (breakdown_step m_agent_id) results [])"

definition tier_breakdown :: "metrics_row list \<Rightarrow> (string \<times> breakdown_entry) list" where
  "tier_breakdown results =
     breakdown_counts (fold (breakdown_step m_subscription_tier) results [])"

text \<open>\<^verbatim>\<open>hour_usage\<close>, a \<^verbatim>\<open>defaultdict(int)\<close>.\<close>

definition hour_step :: "metrics_row \<Rightarrow> (int \<times> int) list \<Rightarrow> (int \<times> int) list" where
  "hour_step r d =
     (case m_hour r of
        None \<Rightarrow> d
      | Some h \<Rightarrow> dict_set d h (dict_get d h 0 + m_total_interactions r))"

definition hour_usage :: "metrics_row list \<Rightarrow> (int \<times> int) list" where
  "hour_usage results = fold hour_step results []"

text \<open>\<^verbatim>\<open>sorted(hour_usage.keys(), key=lambda h: hour_usage[h], reverse=True)[:3]\<close>.\<close>

definition peak_hours :: "metrics_row list \<Rightarrow> int list" where
  "peak_hours results =
     take 3 (sorted_reverse (\<lambda>h. dict_get (hour_usage results) h 0)
               (map fst (hour_usage results)))"

record UsageMetrics =
  period_start :: datetime
  period_end :: datetime
  um_total_interactions :: int
  um_total_tokens :: int
  unique_users :: nat
  unique_sessions :: nat
  um_avg_response_time :: real
  um_agent_breakdown :: "(string \<times> breakdown_entry) list"
  um_tier_breakdown :: "(string \<times> breakdown_entry) list"
  um_peak_hours :: "int list"

text \<open>The part of \<^verbatim>\<open>calculate_usage_metrics\<close> after the queries: \<open>results\<close> are the
  rows of the main query, \<open>user_ids\<close> and \<open>session_ids\<close> the two \<^verbatim>\<open>SELECT DISTINCT\<close>
  columns. The conversion insights are a constant dict and are left out.\<close>

definition usage_metrics_of ::
  "datetime \<Rightarrow> datetime \<Rightarrow> metrics_row list \<Rightarrow> string list \<Rightarrow> string list \<Rightarrow> UsageMetrics" where
  "usage_metrics_of start_date end_date results user_ids session_ids =
     (let response_times =
            concat (map (\<lambda>r. case m_avg_response_time r of
                                None \<Rightarrow> [] | Some t \<Rightarrow> if t \<noteq> 0 then [t] else []) results)
      in \<lparr>period_start = start_date, period_end = end_date,
          um_total_interactions = sum_list (map m_total_interactions results),
          um_total_tokens =
            sum_list (map (\<lambda>r. case m_total_tokens r of Some t \<Rightarrow> t | None \<Rightarrow> 0) results),
          unique_users = card (set user_ids),
          unique_sessions = card (set session_ids),
          um_avg_response_time =
            (if response_times \<noteq> [] then mean_real response_times else 0),
          um_agent_breakdown = agent_breakdown results,
          um_tier_breakdown = tier_breakdown results,
          um_peak_hours = peak_hours results\<rparr>)"

text \<open>\<^verbatim>\<open>calculate_usage_metrics\<close>: \<open>db\<close> is the content of the event table, \<open>None\<close> when
  the database raises (the exception is logged and raised again).\<close>

definition calculate_usage_metrics ::
  "usage_event list option \<Rightarrow> datetime \<Rightarrow> datetime \<Rightarrow> string option \<Rightarrow> string option
     \<Rightarrow> py_error + UsageMetrics" where
  "calculate_usage_metrics db start_date end_date user_filter tier_filter =
     (case db of
        None \<Rightarrow> Inl DatabaseError
      | Some events \<Rightarrow>
          let es = filter (where_clause start_date end_date user_filter tier_filter) events
          in Inr (usage_metrics_of start_date end_date
                    (main_query events start_date end_date user_filter tier_filter)
                    (uniq (map ev_user_id es)) (uniq (map ev_session_id es))))"

text \<open>The reading of \<section>4.1 of the specification: the distinct users among the filtered
  events of one agent, and of one tier.\<close>

definition spec_agent_users ::
  "usage_event list \<Rightarrow> datetime \<Rightarrow> datetime \<Rightarrow> string option \<Rightarrow> string option
     \<Rightarrow> string \<Rightarrow> nat" where
  "spec_agent_users events start_date end_date user_filter tier_filter a =
     card (set (map ev_user_id
       (filter (\<lambda>e. where_clause start_date end_date user_filter tier_filter e
                    \<and> ev_agent_id e = a) events)))"

definition spec_tier_users ::
  "usage_event list \<Rightarrow> datetime \<Rightarrow> datetime \<Rightarrow> string option \<Rightarrow> string option
     \<Rightarrow> string \<Rightarrow> nat" where
  "spec_tier_users events start_date end_date user_filter tier_filter t =
     card (set (map ev_user_id
       (filter (\<lambda>e. where_clause start_date end_date user_filter tier_filter e
                    \<and> ev_subscription_tier e = t) events)))"

text \<open>The reading of the peak hours: the hours that occur in the rows, in order of first
  occurrence, and the summed interaction count of an hour.\<close>

definition hours_seen :: "metrics_row list \<Rightarrow> int list" where
  "hours_seen results =
     uniq (concat (map (\<lambda>r. case m_hour r of None \<Rightarrow> [] | Some h \<Rightarrow> [h]) results))"

definition hour_total :: "metrics_row list \<Rightarrow> int \<Rightarrow> int" where
  "hour_total results h =
     sum_list (map m_total_interactions (filter (\<lambda>r. m_hour r = Some h) results))"

subsection \<open>User insights\<close>

text \<open>The row of the per-user query of \<^verbatim>\<open>generate_user_insights\<close>: one group per
  subscription tier.\<close>

record user_data =
  ud_interactions :: int
  ud_tokens :: int
  ud_avg_response_time :: real
  ud_subscription_tier :: string
  agents_used :: int
  ud_active_days :: int
  first_usage :: datetime
  last_usage :: datetime

definition user_group :: "usage_event list \<Rightarrow> string \<Rightarrow> user_data" where
  "user_group es tier =
     (let g = filter (\<lambda>e. ev_subscription_tier e = tier) es
      in \<lparr>ud_interactions = int (length g),
          ud_tokens = sum_list (map tokens_used g),
          ud_avg_response_time = mean_real (map (\<lambda>e. real_of_int (response_time_ms e)) g),
          ud_subscription_tier = tier,
          agents_used = int (card (set (map ev_agent_id g))),
          ud_active_days = int (card (set (map (\<lambda>e. date_of (ev_timestamp e)) g))),
          first_usage = Min (set (map ev_timestamp g)),
          last_usage = Max (set (map ev_timestamp g))\<rparr>)"

text \<open>The query: the events of the user since \<open>start_date\<close>, grouped by tier; the rows
  come in ascending order of the tier.\<close>

definition user_query :: "usage_event list \<Rightarrow> string \<Rightarrow> datetime \<Rightarrow> user_data list" where
  "user_query events uid start_date =
     (let es = filter (\<lambda>e. ev_user_id e = uid \<and> ev_timestamp e \<ge> start_date) events
      in map (user_group es) (sort (remdups (map ev_subscription_tier es))))"

text \<open>\<^verbatim>\<open>db.fetchrow\<close>: the first row, or \<^verbatim>\<open>None\<close>.\<close>

definition fetchrow :: "'a list \<Rightarrow> 'a option" where
  "fetchrow rows = (case rows of [] \<Rightarrow> None | r # _ \<Rightarrow> Some r)"

record UserUsageInsight =
  ins_user_id :: string
  subscription_tier :: string
  usage_score :: real
  risk_level :: string
  recommendations :: "string list"
  predicted_churn_probability :: real
  upgrade_opportunity :: bool
  efficiency_metrics :: "(string \<times> real) list"

text \<open>
  \<^verbatim>\<open>generate_user_insights\<close>. \<open>db\<close> is the content of the event table (\<open>None\<close>: the
  database raises, and so does the function), \<open>now\<close> the clock, \<open>fmt\<close> the rendering
  of the upgrade recommendation from the usage percentage. \<open>fl\<close> is the rounding of a
  real number to the nearest double: a float literal with a fractional part is \<open>fl\<close>
  of its decimal value (the integers that occur are exact), and every division and every
  operation with a float operand is \<open>fl\<close> of the exact result, in the order in which
  Python evaluates the expression.
\<close>

definition generate_user_insights ::
  "(real \<Rightarrow> real) \<Rightarrow> usage_event list option \<Rightarrow> datetime \<Rightarrow> (real \<Rightarrow> string) \<Rightarrow> string
     \<Rightarrow> py_error + UserUsageInsight" where
  "generate_user_insights fl db now fmt uid =
     (case db of
        None \<Rightarrow> Inl DatabaseError
      | Some events \<Rightarrow>
          let end_date = now;
              start_date = end_date - days 30
          in case fetchrow (user_query events uid start_date) of
               None \<Rightarrow>
                 Inr \<lparr>ins_user_id = uid, subscription_tier = ''unknown'',
                      usage_score = 0, risk_level = ''critical'',
                      recommendations = [''Re-engage user with personalized content''],
                      predicted_churn_probability = fl (95 / 100),
                      upgrade_opportunity = False, efficiency_metrics = []\<rparr>
             | Some ud \<Rightarrow>
                 let tier = ud_subscription_tier ud;
                     limit = tier_limit tier;
                     usage_pct = fl (fl (real_of_int (ud_tokens ud) / real_of_int limit) * 100);
                     score = min 100
                       (fl (fl (fl (fl (usage_pct * fl (4 / 10))
                                    + fl (fl (fl (real_of_int (ud_active_days ud) / 30) * 100)
                                            * fl (3 / 10)))
                                + fl (fl (fl (real_of_int (agents_used ud) / 11) * 100)
                                        * fl (2 / 10)))
                            + fl (min 100 (fl (fl (real_of_int (ud_interactions ud) / 100) * 100))
                                    * fl (1 / 10))));
                     risk = (if score \<ge> 80 then ''low''
                             else if score \<ge> 60 then ''medium''
                             else if score \<ge> 30 then ''high''
                             else ''critical'');
                     days_since_last = (end_date - last_usage ud) div days 1;
                     churn = min (fl (95 / 100)) (max (fl (5 / 100))
                       (fl (fl (fl (fl (100 - score) / 100) * fl (6 / 10))
                            + fl (fl (real_of_int days_since_last / 30) * fl (4 / 10)))));
                     recs =
                       (if usage_pct > 80 then [fmt usage_pct] else [])
                       @ (if agents_used ud < 3
                          then [''Explore more agents to maximize value''] else [])
                       @ (if ud_active_days ud < 15
                          then [''Increase engagement frequency''] else [])
                       @ (if ud_avg_response_time ud > 2000
                          then [''Optimize queries for better performance''] else []);
                     upgrade = (usage_pct > 70 \<and> tier \<in> set [''essential'', ''pro'']
                                \<and> ud_active_days ud > 20)
                 in Inr \<lparr>ins_user_id = uid, subscription_tier = tier,
                         usage_score = score, risk_level = risk,
                         recommendations = recs,
                         predicted_churn_probability = churn,
                         upgrade_opportunity = upgrade,
                         efficiency_metrics =
                           [(''tokens_per_interaction'',
                               fl (real_of_int (ud_tokens ud)
                                     / real_of_int (max 1 (ud_interactions ud)))),
                            (''interactions_per_day'',
                               fl (real_of_int (ud_interactions ud)
                                     / real_of_int (max 1 (ud_active_days ud)))),
                            (''agent_diversity'', fl (real_of_int (agents_used ud) / 11)),
                            (''engagement_consistency'',
                               fl (real_of_int (ud_active_days ud) / 30))]\<rparr>)"

subsection \<open>Anomaly detection\<close>

text \<open>A row of the daily usage query, one per (date, agent), and the entry kept per
  agent.\<close>

record daily_row =
  usage_date :: int
  daily_interactions :: int
  daily_tokens :: int
  daily_users :: int
  dr_agent_id :: string

record day_entry =
  d_date :: int
  d_interactions :: int
  d_tokens :: int
  d_users :: int

text \<open>An anomaly dict. \<^verbatim>\<open>'date'\<close> keeps the day number instead of its ISO text; the
  formatted \<^verbatim>\<open>'description'\<close> is left out.\<close>

record anomaly =
  an_type :: string
  an_agent_id :: string
  an_date :: int
  an_value :: int
  an_expected :: real
  an_severity :: string

definition entry_of :: "daily_row \<Rightarrow> day_entry" where
  "entry_of r = \<lparr>d_date = usage_date r, d_interactions = daily_interactions r,
                 d_tokens = daily_tokens r, d_users = daily_users r\<rparr>"

text \<open>\<^verbatim>\<open>agent_data[r['agent_id']].append(...)\<close> on a \<^verbatim>\<open>defaultdict(list)\<close>.\<close>

definition agent_data_step ::
  "daily_row \<Rightarrow> (string \<times> day_entry list) list \<Rightarrow> (string \<times> day_entry list) list" where
  "agent_data_step r d =
     dict_set d (dr_agent_id r) (dict_get d (dr_agent_id r) [] @ [entry_of r])"

definition agent_data :: "daily_row list \<Rightarrow> (string \<times> day_entry list) list" where
  "agent_data results = fold agent_data_step results []"

text \<open>The body of \<^verbatim>\<open>for i, d in enumerate(data)\<close>: the interaction block, then the
  token block.\<close>

definition day_anomalies ::
  "string \<Rightarrow> real \<Rightarrow> real \<Rightarrow> real \<Rightarrow> real \<Rightarrow> day_entry \<Rightarrow> anomaly list" where
  "day_anomalies agent mean_interactions std_interactions mean_tokens std_tokens d =
     (if std_interactions > 0 then
        (let interaction_z_score =
               \<bar>real_of_int (d_interactions d) - mean_interactions\<bar> / std_interactions
         in if interaction_z_score > 2 then
              [\<lparr>an_type = (if real_of_int (d_interactions d) > mean_interactions
                            then ''interaction_spike'' else ''interaction_drop''),
                an_agent_id = agent, an_date = d_date d, an_value = d_interactions d,
                an_expected = mean_interactions,
                an_severity = (if interaction_z_score > 3 then ''high'' else ''medium'')\<rparr>]
            else [])
      else [])
     @
     (if std_tokens > 0 then
        (let token_z_score = \<bar>real_of_int (d_tokens d) - mean_tokens\<bar> / std_tokens
         in if token_z_score > 2 then
              [\<lparr>an_type = (if real_of_int (d_tokens d) > mean_tokens
                            then ''token_spike'' else ''token_drop''),
                an_agent_id = agent, an_date = d_date d, an_value = d_tokens d,
                an_expected = mean_tokens,
                an_severity = (if token_z_score > 3 then ''high'' else ''medium'')\<rparr>]
            else [])
      else [])"

text \<open>The body of \<^verbatim>\<open>for agent_id, data in agent_data.items()\<close>.\<close>

definition agent_anomalies :: "string \<Rightarrow> day_entry list \<Rightarrow> anomaly list" where
  "agent_anomalies agent data =
     (if length data < 3 then []
      else
        let interactions_list = map d_interactions data;
            tokens_list = map d_tokens data
        in if length interactions_list > 1 then
             (let mean_interactions = mean interactions_list;
                  std_interactions =
                    (if length interactions_list > 1 then stdev interactions_list else 0);
                  mean_tokens = mean tokens_list;
                  std_tokens = (if length tokens_list > 1 then stdev tokens_list else 0)
              in concat (map (day_anomalies agent mean_interactions std_interactions
                                mean_tokens std_tokens) data))
           else [])"

text \<open>\<^verbatim>\<open>detect_usage_anomalies\<close>: \<open>results\<close> are the rows of the daily query, \<open>None\<close>
  when the database raises (the function then returns the empty list).\<close>

definition detect_usage_anomalies :: "daily_row list option \<Rightarrow> anomaly list" where
  "detect_usage_anomalies results =
     (case results of
        None \<Rightarrow> []
      | Some rows \<Rightarrow> concat (map (\<lambda>kv. agent_anomalies (fst kv) (snd kv)) (agent_data rows)))"

text \<open>
  The reading of \<section>4.2 of the specification. The days of an agent are its rows; a value
  is flagged when the agent has at least three days, the sample standard deviation of
  the metric is not zero and the z-score exceeds 2.
\<close>

definition agent_days :: "daily_row list \<Rightarrow> string \<Rightarrow> day_entry list" where
  "agent_days rows a = map entry_of (filter (\<lambda>r. dr_agent_id r = a) rows)"

definition z_score :: "int \<Rightarrow> int list \<Rightarrow> real" where
  "z_score v xs = \<bar>real_of_int v - mean xs\<bar> / stdev xs"

definition spec_flagged :: "day_entry list \<Rightarrow> (day_entry \<Rightarrow> int) \<Rightarrow> day_entry \<Rightarrow> bool" where
  "spec_flagged data metric d =
     (d \<in> set data \<and> 3 \<le> length data \<and> stdev (map metric data) \<noteq> 0
      \<and> z_score (metric d) (map metric data) > 2)"

definition spec_anomaly ::
  "string \<Rightarrow> string \<Rightarrow> day_entry list \<Rightarrow> (day_entry \<Rightarrow> int) \<Rightarrow> day_entry \<Rightarrow> anomaly" where
  "spec_anomaly kind agent data metric d =
     \<lparr>an_type = kind @ (if real_of_int (metric d) > mean (map metric data)
                         then ''_spike'' else ''_drop''),
      an_agent_id = agent, an_date = d_date d, an_value = metric d,
      an_expected = mean (map metric data),
      an_severity = (if z_score (metric d) (map metric data) > 3
                     then ''high'' else ''medium'')\<rparr>"

section \<open>Live dashboard connections\<close>

text \<open>
  \<^verbatim>\<open>ConnectionManager.broadcast\<close>. A connection is a number (the identity of the
  \<^verbatim>\<open>WebSocket\<close> object); \<open>raises c\<close> tells whether \<^verbatim>\<open>send_text\<close> raises on \<open>c\<close>. The
  \<^verbatim>\<open>for\<close> loop iterates over the list it mutates: the list iterator keeps an index
  \<open>i\<close>, stops when \<open>i\<close> reaches the current length and yields element \<open>i\<close> of the
  current list; \<^verbatim>\<open>list.remove\<close> deletes the first equal element. The result is the
  registry after the loop and the connections that received the message, in order.
\<close>

function broadcast_loop ::
  "(nat \<Rightarrow> bool) \<Rightarrow> nat \<Rightarrow> nat list \<Rightarrow> nat list \<Rightarrow> nat list \<times> nat list" where
  "broadcast_loop raises i active_connections sent =
     (if i < length active_connections then
        (let connection = active_connections ! i
         in if raises connection
            then broadcast_loop raises (Suc i) (remove1 connection active_connections) sent
            else broadcast_loop raises (Suc i) active_connections (sent @ [connection]))
      else (active_connections, sent))"
  by pat_completeness auto
termination
  by (relation "measure (\<lambda>(raises, i, conns, sent). length conns - i)")
     (auto simp: length_remove1)

definition broadcast :: "(nat \<Rightarrow> bool) \<Rightarrow> nat list \<Rightarrow> nat list \<times> nat list" where
  "broadcast raises active_connections = broadcast_loop raises 0 active_connections []"

section \<open>Example inputs\<close>

text \<open>Identifiers drawn by \<^verbatim>\<open>uuid.uuid4()\<close> in the examples.\<close>

definition uuid_seq :: "nat \<Rightarrow> string" where
  "uuid_seq n = (if n = 0 then ''a0'' else if n = 1 then ''a1'' else ''a2'')"

text \<open>A fresh service with a reachable, empty alert table; rule \<^verbatim>\<open>usage_exceeded\<close>
  triggered for user \<^verbatim>\<open>u1\<close> at time 0, and once more one minute later.\<close>

definition once :: service where
  "once = trigger_alert uuid_seq 0 (init_service [] True)
            ''usage_exceeded'' ''title'' ''message'' (Some ''u1'') None"

definition twice :: service where
  "twice = trigger_alert uuid_seq (minutes 1) once
             ''usage_exceeded'' ''title'' ''message'' (Some ''u1'') None"

text \<open>Another service holding two active alerts, triggered at times 1000 and 2000.\<close>

definition two_alerts :: service where
  "two_alerts =
     trigger_alert uuid_seq 2000
       (trigger_alert uuid_seq 1000 (init_service [] True)
          ''churn_risk'' ''title'' ''message'' (Some ''u1'') None)
       ''usage_exceeded'' ''title'' ''message'' (Some ''u2'') None"

text \<open>Every agent of the roster slow (6000 ms) over 20 interactions.\<close>

definition slow_agents :: "string \<Rightarrow> AgentPerformanceMetrics option" where
  "slow_agents a = Some \<lparr>perf_agent_id = a, total_interactions = 20,
                         avg_response_time = 6000, success_rate = 4 / 10\<rparr>"

definition perf_text :: "AgentPerformanceMetrics \<Rightarrow> string \<times> string" where
  "perf_text p = (''title'', ''message'')"




text \<open>One event of user \<^verbatim>\<open>u1\<close> with agent NEXUS on tier pro.\<close>

definition one_event :: "usage_event list" where
  "one_event =
     [\<lparr>ev_user_id = ''u1'', ev_agent_id = ''NEXUS'', ev_session_id = ''s1'',
       tokens_used = 100, response_time_ms = 500, ev_timestamp = 1000,
       ev_subscription_tier = ''pro''\<rparr>]"

text \<open>Two events on one day: ARIA in hour 5, NEXUS in hour 2.\<close>

definition tie_events :: "usage_event list" where
  "tie_events =
     [\<lparr>ev_user_id = ''u1'', ev_agent_id = ''ARIA'', ev_session_id = ''s1'',
       tokens_used = 100, response_time_ms = 500, ev_timestamp = 5 * 3600000000,
       ev_subscription_tier = ''pro''\<rparr>,
      \<lparr>ev_user_id = ''u2'', ev_agent_id = ''NEXUS'', ev_session_id = ''s2'',
       tokens_used = 100, response_time_ms = 500, ev_timestamp = 2 * 3600000000,
       ev_subscription_tier = ''pro''\<rparr>]"

text \<open>Daily rows of agent NEXUS with interaction counts 10, 10, 10, 10, 100, with
  10, 10, 10, 10, 10, 100 and with 10, 10, 10, 10; the token counts are constant.\<close>

definition five_days :: "daily_row list" where
  "five_days =
     [\<lparr>usage_date = 1, daily_interactions = 10, daily_tokens = 500, daily_users = 1,
       dr_agent_id = ''NEXUS''\<rparr>,
      \<lparr>usage_date = 2, daily_interactions = 10, daily_tokens = 500, daily_users = 1,
       dr_agent_id = ''NEXUS''\<rparr>,
      \<lparr>usage_date = 3, daily_interactions = 10, daily_tokens = 500, daily_users = 1,
       dr_agent_id = ''NEXUS''\<rparr>,
      \<lparr>usage_date = 4, daily_interactions = 10, daily_tokens = 500, daily_users = 1,
       dr_agent_id = ''NEXUS''\<rparr>,
      \<lparr>usage_date = 5, daily_interactions = 100, daily_tokens = 500, daily_users = 1,
       dr_agent_id = ''NEXUS''\<rparr>]"

definition six_days :: "daily_row list" where
  "six_days =
     [\<lparr>usage_date = 1, daily_interactions = 10, daily_tokens = 500, daily_users = 1,
       dr_agent_id = ''NEXUS''\<rparr>,
      \<lparr>usage_date = 2, daily_interactions = 10, daily_tokens = 500, daily_users = 1,
       dr_agent_id = ''NEXUS''\<rparr>,
      \<lparr>usage_date = 3, daily_interactions = 10, daily_tokens = 500, daily_users = 1,
       dr_agent_id = ''NEXUS''\<rparr>,
      \<lparr>usage_date = 4, daily_interactions = 10, daily_tokens = 500, daily_users = 1,
       dr_agent_id = ''NEXUS''\<rparr>,
      \<lparr>usage_date = 5, daily_interactions = 10, daily_tokens = 500, daily_users = 1,
       dr_agent_id = ''NEXUS''\<rparr>,
      \<lparr>usage_date = 6, daily_interactions = 100, daily_tokens = 500, daily_users = 1,
       dr_agent_id = ''NEXUS''\<rparr>]"

definition four_days :: "daily_row list" where
  "four_days =
     [\<lparr>usage_date = 1, daily_interactions = 10, daily_tokens = 500, daily_users = 1,
       dr_agent_id = ''NEXUS''\<rparr>,
      \<lparr>usage_date = 2, daily_interactions = 10, daily_tokens = 500, daily_users = 1,
       dr_agent_id = ''NEXUS''\<rparr>,
      \<lparr>usage_date = 3, daily_interactions = 10, daily_tokens = 500, daily_users = 1,
       dr_agent_id = ''NEXUS''\<rparr>,
      \<lparr>usage_date = 4, daily_interactions = 10, daily_tokens = 500, daily_users = 1,
       dr_agent_id = ''NEXUS''\<rparr>]"

text \<open>Rendering of the upgrade recommendation in the examples.\<close>

definition upgrade_text :: "real \<Rightarrow> string" where
  "upgrade_text pct = ''Consider upgrading to higher tier''"

text \<open>Connection 1 is closed: sending to it raises.\<close>

definition closed_one :: "nat \<Rightarrow> bool" where
  "closed_one c = (c = 1)"

section \<open>Properties of the alerts service\<close>

subsection \<open>Auxiliary facts\<close>

lemmas alerts_defs =
  trigger_alert_def init_service_def default_rules_def is_in_cooldown_def
  save_alert_to_db_def subject_key_def slice_to_def sorted_reverse_def active_values_def
  get_active_alerts_def resolve_alert_def alert_cleanup_def dict_del_def minutes_def
  days_def uuid_seq_def

lemma set_slice_to: "set (slice_to n xs) \<subseteq> set xs"
  by (auto simp: slice_to_def dest: in_set_takeD)

lemma slice_to_all: "int (length xs) \<le> n \<Longrightarrow> slice_to n xs = xs"
  by (simp add: slice_to_def)

lemma sorted_reverse_desc: "sorted_wrt (\<lambda>a b. f a \<ge> f b) (sorted_reverse f xs)"
proof -
  have "sorted (map f (sort_key f (rev xs)))"
    by (rule sorted_sort_key)
  then have "sorted_wrt (\<lambda>a b. f a \<le> f b) (sort_key f (rev xs))"
    by (simp add: sorted_map)
  then show ?thesis
    by (simp add: sorted_reverse_def sorted_wrt_rev)
qed

lemma mset_sorted_reverse: "mset (sorted_reverse f xs) = mset xs"
  by (simp add: sorted_reverse_def)

lemma set_sorted_reverse: "set (sorted_reverse f xs) = set xs"
  by (simp add: sorted_reverse_def)

lemma length_sorted_reverse: "length (sorted_reverse f xs) = length xs"
  by (simp add: sorted_reverse_def)

lemma distinct_sorted_reverse: "distinct (sorted_reverse f xs) = distinct xs"
  by (simp add: sorted_reverse_def)

lemma sorted_reverse_stable:
  "filter (\<lambda>y. f y = k) (sorted_reverse f xs) = filter (\<lambda>y. f y = k) xs"
  by (simp add: sorted_reverse_def sort_key_stable flip: rev_filter)

lemma sorted_wrt_take: "sorted_wrt P xs \<Longrightarrow> sorted_wrt P (take n xs)"
  by (metis append_take_drop_id sorted_wrt_append)

lemma set_dict_set: "set (dict_set d k v) \<subseteq> insert (k, v) (set d)"
  by (induction d k v rule: dict_set.induct) (auto split: if_splits)

lemma fold_dict_del:
  "fold (\<lambda>k d. dict_del d k) ks d = filter (\<lambda>kv. fst kv \<notin> set ks) d"
  by (induction ks arbitrary: d) (auto simp: dict_del_def intro: filter_cong)

lemma cleanup_active:
  "active_alerts (alert_cleanup t s) =
     filter (\<lambda>kv. fst kv \<notin> fst ` {e \<in> set (active_alerts s). resolved_at (heap s ! snd e) \<noteq> None})
       (active_alerts s)"
  by (simp add: alert_cleanup_def Let_def fold_dict_del)

lemma cleanup_heap: "heap (alert_cleanup t s) = heap s"
  by (simp add: alert_cleanup_def Let_def)

lemma cleanup_unresolved:
  "a \<in> set (active_values (alert_cleanup t s)) \<Longrightarrow> resolved_at a = None"
  by (force simp: active_values_def cleanup_active cleanup_heap)

lemma resolve_found:
  assumes "map_of (active_alerts s) aid = Some ref" "db_available s"
  shows "fst (resolve_alert now s aid who)"
    and "active_alerts (snd (resolve_alert now s aid who)) = active_alerts s"
    and "heap (snd (resolve_alert now s aid who))
           = (heap s)[ref := (heap s ! ref)\<lparr>resolved_at := Some now\<rparr>]"
  using assms by (simp_all add: resolve_alert_def Let_def)

lemma trigger_alert_unknown_rule:
  "map_of (alert_rules s) rid = None \<Longrightarrow> trigger_alert u now s rid t m a b = s"
  by (simp add: trigger_alert_def)

lemma performance_loop_unknown_rule:
  "map_of (alert_rules s) ''performance_degradation'' = None
     \<Longrightarrow> performance_loop u now txt an s as = s"
  by (induction as) (auto simp: trigger_alert_unknown_rule split: option.splits)

lemma trigger_alert_heap_length:
  "length (heap (trigger_alert u now s rid t m a b)) \<le> Suc (length (heap s))"
  by (auto simp: trigger_alert_def save_alert_to_db_def Let_def split: option.splits)

text \<open>The allocation invariant holds initially and is kept by the operations.\<close>

lemma refs_allocated_init: "refs_allocated (init_service table up)"
  by (simp add: refs_allocated_def init_service_def)

lemma refs_allocated_trigger_alert:
  assumes "refs_allocated s"
  shows "refs_allocated (trigger_alert u now s rid t m a b)"
proof (cases "map_of (alert_rules s) rid")
  case None
  then show ?thesis using assms by (simp add: trigger_alert_def)
next
  case (Some rule)
  show ?thesis
  proof (cases "enabled rule \<and> \<not> is_in_cooldown s (rid @ ''_'' @ subject_key a b) (cooldown_minutes rule) now")
    case False
    then show ?thesis using assms Some by (auto simp: trigger_alert_def Let_def)
  next
    case True
    have old: "\<forall>kv \<in> set (active_alerts s). snd kv < Suc (length (heap s))"
      using assms by (auto simp: refs_allocated_def list_all_iff)
    have "\<forall>kv \<in> set (dict_set (active_alerts s) (u (length (heap s))) (length (heap s))).
            snd kv < Suc (length (heap s))"
      using old set_dict_set[of "active_alerts s" "u (length (heap s))" "length (heap s)"]
      by fastforce
    then show ?thesis
      using True Some
      by (simp add: trigger_alert_def Let_def save_alert_to_db_def refs_allocated_def list_all_iff)
  qed
qed

lemma refs_allocated_resolve_alert:
  "refs_allocated s \<Longrightarrow> refs_allocated (snd (resolve_alert now s aid who))"
  by (simp add: resolve_alert_def refs_allocated_def Let_def split: option.splits)

subsection \<open>Cooldown\<close>

text \<open>
  C1. Triggering a rule for a subject twice within the rule's cooldown should persist
  exactly one alert. The service looks the cooldown up by the key
  \<^verbatim>\<open>rule_subject\<close> in the column \<^verbatim>\<open>alert_type\<close>, but stores the value of the alert
  type in that column, so the lookup finds nothing: rule \<^verbatim>\<open>usage_exceeded\<close> (cooldown
  60 minutes) triggered for user \<^verbatim>\<open>u1\<close> at time 0 and again one minute later persists
  two alerts and holds two in the active set.
\<close>

theorem trigger_alert_twice_in_cooldown:
  "map row_id (usage_alerts twice) = [''a0'', ''a1'']
   \<and> map row_alert_type (usage_alerts twice)
       = [''usage_limit_exceeded'', ''usage_limit_exceeded'']
   \<and> map row_triggered_at (usage_alerts twice) = [0, 60000000]
   \<and> map fst (active_alerts twice) = [''a0'', ''a1'']
   \<and> is_in_cooldown once ''usage_exceeded_u1'' 60 (minutes 1) = False"
  by (simp add: twice_def once_def alerts_defs Let_def)

subsection \<open>Resolving\<close>

text \<open>
  C2, as stated, at a concrete input: the alert \<^verbatim>\<open>a0\<close> is resolved successfully at time
  2000 and the listing that follows still returns it, now with \<^verbatim>\<open>resolved_at\<close> set.
\<close>

theorem resolve_alert_still_listed:
  "fst (resolve_alert 2000 once ''a0'' ''ops'')
   \<and> map alert_id (fst (get_active_alerts (snd (resolve_alert 2000 once ''a0'' ''ops'')) 50))
       = [''a0'']
   \<and> map resolved_at (fst (get_active_alerts (snd (resolve_alert 2000 once ''a0'' ''ops'')) 50))
       = [Some 2000]"
  by (simp add: once_def alerts_defs Let_def)

text \<open>
  C2, amended. For an alert id of the active set (whose objects are allocated) and a
  database that accepts the update, \<^verbatim>\<open>resolve_alert\<close> returns success and sets
  \<^verbatim>\<open>resolved_at\<close> of the alert to the current time. The alert stays in the active set:
  a listing whose limit does not cut it off still returns it. After the next pass of
  the cleanup loop the id is no longer in the active set and every alert that a
  listing returns is unresolved.
\<close>

theorem resolve_alert_listed_until_cleanup:
  assumes "aid \<in> fst ` set (active_alerts s)" and "refs_allocated s" and "db_available s"
    and "int (length (active_alerts s)) \<le> limit"
  shows "fst (resolve_alert now s aid who)
    \<and> (\<exists>ref. map_of (active_alerts (snd (resolve_alert now s aid who))) aid = Some ref
          \<and> resolved_at (heap (snd (resolve_alert now s aid who)) ! ref) = Some now
          \<and> heap (snd (resolve_alert now s aid who)) ! ref
              \<in> set (fst (get_active_alerts (snd (resolve_alert now s aid who)) limit)))
    \<and> aid \<notin> fst ` set (active_alerts (alert_cleanup t (snd (resolve_alert now s aid who))))
    \<and> (\<forall>a \<in> set (fst (get_active_alerts
                        (alert_cleanup t (snd (resolve_alert now s aid who))) n)).
          resolved_at a = None)"
proof -
  let ?s' = "snd (resolve_alert now s aid who)"
  from assms(1) obtain ref where m: "map_of (active_alerts s) aid = Some ref"
    by (metis map_of_eq_None_iff not_None_eq)
  then have e: "(aid, ref) \<in> set (active_alerts s)"
    by (rule map_of_SomeD)
  with assms(2) have b: "ref < length (heap s)"
    by (auto simp: refs_allocated_def list_all_iff)
  note r = resolve_found[OF m assms(3), of now who]
  have res: "resolved_at (heap ?s' ! ref) = Some now"
    using b by (simp add: r(3))
  have act: "heap ?s' ! ref \<in> set (active_values ?s')"
    using e unfolding active_values_def r(2) by force
  have full: "fst (get_active_alerts ?s' limit)
                = sorted_reverse triggered_at (active_values ?s')"
    using assms(4)
    by (simp add: get_active_alerts_def slice_to_all length_sorted_reverse
        active_values_def r(2))
  have listed: "heap ?s' ! ref \<in> set (fst (get_active_alerts ?s' limit))"
    using act by (simp add: full set_sorted_reverse)
  have gone: "aid \<notin> fst ` set (active_alerts (alert_cleanup t ?s'))"
  proof -
    have "(aid, ref) \<in> {e \<in> set (active_alerts ?s'). resolved_at (heap ?s' ! snd e) \<noteq> None}"
      using e res by (simp add: r(2))
    then have "aid \<in> fst ` {e \<in> set (active_alerts ?s').
                               resolved_at (heap ?s' ! snd e) \<noteq> None}"
      by force
    then show ?thesis
      unfolding cleanup_active set_filter by blast
  qed
  have clean: "\<forall>a \<in> set (fst (get_active_alerts (alert_cleanup t ?s') n)).
                 resolved_at a = None"
    using set_slice_to cleanup_unresolved
    by (fastforce simp: get_active_alerts_def set_sorted_reverse)
  show ?thesis
    using r(1) m res listed gone clean by (auto simp: r(2))
qed

theorem resolve_alert_listed_until_cleanup_witness:
  "''a0'' \<in> fst ` set (active_alerts once) \<and> refs_allocated once \<and> db_available once
   \<and> int (length (active_alerts once)) \<le> 50
   \<and> fst (resolve_alert 2000 once ''a0'' ''ops'')
   \<and> ''a0'' \<notin> fst ` set (active_alerts
                          (alert_cleanup 3000 (snd (resolve_alert 2000 once ''a0'' ''ops''))))
   \<and> fst (get_active_alerts
            (alert_cleanup 3000 (snd (resolve_alert 2000 once ''a0'' ''ops''))) 50) = []"
proof -
  have h1: "''a0'' \<in> fst ` set (active_alerts once)"
    by (simp add: once_def alerts_defs Let_def)
  have h2: "refs_allocated once"
    by (simp add: once_def alerts_defs Let_def refs_allocated_def)
  have h3: "db_available once"
    by (simp add: once_def alerts_defs Let_def)
  have h4: "int (length (active_alerts once)) \<le> 50"
    by (simp add: once_def alerts_defs Let_def)
  have e: "fst (get_active_alerts
             (alert_cleanup 3000 (snd (resolve_alert 2000 once ''a0'' ''ops''))) 50) = []"
    by (simp add: once_def alerts_defs Let_def)
  show ?thesis
    using h1 h2 h3 h4 e
      resolve_alert_listed_until_cleanup[OF h1 h2 h3 h4, of 2000 "''ops''" 3000 50]
    by blast
qed

subsection \<open>Performance monitor\<close>

text \<open>
  C3. A cycle of the performance monitor should create a performance-degradation alert
  for every roster agent slower than 5000 ms over more than 10 interactions. The
  monitor triggers rule \<^verbatim>\<open>performance_degradation\<close>, which the registry of default
  rules does not contain, so \<^verbatim>\<open>_trigger_alert\<close> returns at once: with all six agents
  at 6000 ms over 20 interactions the cycle leaves a fresh service as it was (no active
  alert, nothing persisted, nothing queued).
\<close>

theorem check_agent_performance_creates_nothing:
  "check_agent_performance uuid_seq 0 perf_text slow_agents (init_service [] True)
     = init_service [] True
   \<and> map_of (alert_rules (init_service [] True)) ''performance_degradation'' = None
   \<and> active_alerts (init_service [] True) = []
   \<and> avg_response_time (the (slow_agents ''NEXUS'')) > response_time_degradation
   \<and> total_interactions (the (slow_agents ''NEXUS'')) > 10"
  by (simp add: check_agent_performance_def performance_loop_unknown_rule
      init_service_def default_rules_def slow_agents_def response_time_degradation_def)

subsection \<open>Usage-limit monitor\<close>

text \<open>The third branch of the chain is dead code: a usage of 85% or more is caught
  by one of the first two branches.\<close>

lemma upgrade_branch_unreachable:
  "spec_usage_choice pct tier active \<noteq> Some ''upgrade_opportunity''"
  by (simp add: spec_usage_choice_def)









subsection \<open>Listing the active alerts\<close>

text \<open>
  C10, as stated, at a concrete input: with two active alerts and \<^verbatim>\<open>limit = -1\<close> the
  listing returns one alert, which is more than \<open>limit\<close> entries (the Python slice
  \<^verbatim>\<open>[:-1]\<close> drops the last element).
\<close>

theorem get_active_alerts_negative_limit:
  "map alert_id (fst (get_active_alerts two_alerts (- 1))) = [''a1'']
   \<and> \<not> int (length (fst (get_active_alerts two_alerts (- 1)))) \<le> - 1"
  by (simp add: two_alerts_def alerts_defs Let_def)

text \<open>
  C10, amended. For a limit that is not negative, \<^verbatim>\<open>get_active_alerts\<close> returns the
  alerts of the active set sorted by \<^verbatim>\<open>triggered_at\<close>, newest first, cut to the first
  \<open>limit\<close> entries, and leaves the service as it is.
\<close>

theorem get_active_alerts_newest_first:
  assumes "0 \<le> limit"
  shows "sorted_wrt (\<lambda>a b. triggered_at a \<ge> triggered_at b) (fst (get_active_alerts s limit))
       \<and> length (fst (get_active_alerts s limit)) = min (nat limit) (length (active_alerts s))
       \<and> (\<exists>full. mset full = mset (active_values s)
              \<and> sorted_wrt (\<lambda>a b. triggered_at a \<ge> triggered_at b) full
              \<and> fst (get_active_alerts s limit) = take (nat limit) full)
       \<and> snd (get_active_alerts s limit) = s"
proof -
  let ?full = "sorted_reverse triggered_at (active_values s)"
  have r: "fst (get_active_alerts s limit) = take (nat limit) ?full"
    using assms by (simp add: get_active_alerts_def slice_to_def)
  have d: "sorted_wrt (\<lambda>a b. triggered_at a \<ge> triggered_at b) ?full"
    by (rule sorted_reverse_desc)
  have m: "mset ?full = mset (active_values s)"
    by (rule mset_sorted_reverse)
  have l: "length ?full = length (active_alerts s)"
    by (simp add: length_sorted_reverse active_values_def)
  show ?thesis
    using r d m l by (auto simp: sorted_wrt_take get_active_alerts_def)
qed

theorem get_active_alerts_newest_first_witness:
  "(0::int) \<le> 1
   \<and> map alert_id (fst (get_active_alerts two_alerts 1)) = [''a1'']
   \<and> length (fst (get_active_alerts two_alerts 1)) = min (nat 1) (length (active_alerts two_alerts))
   \<and> snd (get_active_alerts two_alerts 1) = two_alerts"
proof -
  have h: "(0::int) \<le> 1"
    by simp
  have e: "map alert_id (fst (get_active_alerts two_alerts 1)) = [''a1'']"
    by (simp add: two_alerts_def alerts_defs Let_def)
  show ?thesis
    using h e get_active_alerts_newest_first[OF h, of two_alerts] by simp
qed

section \<open>Properties of the analytics engine\<close>

subsection \<open>Insertion-ordered dictionaries\<close>

lemma map_of_dict_set: "map_of (dict_set d k v) = (map_of d)(k \<mapsto> v)"
  by (induction d k v rule: dict_set.induct) auto

lemma keys_dict_set:
  "map fst (dict_set d k v) = (if k \<in> set (map fst d) then map fst d else map fst d @ [k])"
  by (induction d k v rule: dict_set.induct) auto

lemma distinct_dict_set: "distinct (map fst d) \<Longrightarrow> distinct (map fst (dict_set d k v))"
  by (simp add: keys_dict_set)

lemma dict_get_dict_set: "dict_get (dict_set d k v) h dflt = (if h = k then v else dict_get d h dflt)"
  by (simp add: dict_get_def map_of_dict_set)

lemmas metrics_defs =
  calculate_usage_metrics_def usage_metrics_of_def main_query_def where_clause_def
  truthy_def group_row_def group_key_def agent_breakdown_def tier_breakdown_def
  breakdown_counts_def breakdown_step_def breakdown_default_def dict_get_def
  hour_usage_def hour_step_def peak_hours_def sorted_reverse_def hour_of_def
  mean_real_def spec_agent_users_def spec_tier_users_def

subsection \<open>Breakdown user counts\<close>

lemma breakdown_step_users:
  assumes "\<forall>kv \<in> set d. acc_users (snd kv) = {}"
  shows "\<forall>kv \<in> set (breakdown_step key r d). acc_users (snd kv) = {}"
proof
  fix kv
  assume kv: "kv \<in> set (breakdown_step key r d)"
  define e where "e = dict_get d (key r) breakdown_default"
  define e2 where "e2 = e\<lparr>acc_interactions := acc_interactions e + m_total_interactions r,
     acc_tokens := acc_tokens e + (case m_total_tokens r of Some t \<Rightarrow> t | None \<Rightarrow> 0)\<rparr>"
  have g: "acc_users e = {}"
  proof (cases "map_of d (key r)")
    case None
    then show ?thesis by (simp add: e_def dict_get_def breakdown_default_def)
  next
    case (Some x)
    then have "(key r, x) \<in> set d" by (rule map_of_SomeD)
    with assms have "acc_users x = {}" by force
    with Some show ?thesis by (simp add: e_def dict_get_def)
  qed
  have s: "breakdown_step key r d = dict_set d (key r) e2"
    by (simp add: breakdown_step_def Let_def e2_def e_def)
  from kv have "kv = (key r, e2) \<or> kv \<in> set d"
    unfolding s using set_dict_set[of d "key r" e2] by blast
  then show "acc_users (snd kv) = {}"
  proof
    assume "kv = (key r, e2)"
    then show ?thesis using g by (simp add: e2_def)
  next
    assume "kv \<in> set d"
    with assms show ?thesis by blast
  qed
qed

lemma fold_breakdown_users: 
  "\<forall>kv \<in> set d. acc_users (snd kv) = {} \<Longrightarrow> \<forall>kv \<in> set (fold (breakdown_step key) rs d). acc_users (snd kv) = {}"
proof (induction rs arbitrary: d)
  case Nil then show ?case by simp
next
  case (Cons r rs)
  have "\<forall>kv \<in> set (breakdown_step key r d). acc_users (snd kv) = {}"
    using Cons.prems by (rule breakdown_step_users)
  then show ?case using Cons.IH by simp
qed

lemma breakdown_counts_users:
  assumes "\<forall>kv \<in> set d. acc_users (snd kv) = {}" and "kv \<in> set (breakdown_counts d)"
  shows "users (snd kv) = 0"
proof -
  from assms(2) obtain x where "x \<in> set d" and "kv = (fst x, \<lparr>interactions = acc_interactions (snd x),
        tokens = acc_tokens (snd x), users = card (acc_users (snd x))\<rparr>)"
    unfolding breakdown_counts_def by auto
  with assms(1) show ?thesis by simp
qed

lemma agent_breakdown_users: "kv \<in> set (agent_breakdown rows) \<Longrightarrow> users (snd kv) = 0"
  unfolding agent_breakdown_def
  by (rule breakdown_counts_users[OF fold_breakdown_users]) simp_all

lemma tier_breakdown_users: "kv \<in> set (tier_breakdown rows) \<Longrightarrow> users (snd kv) = 0"
  unfolding tier_breakdown_def
  by (rule breakdown_counts_users[OF fold_breakdown_users]) simp_all

text \<open>
  C5. The \<^verbatim>\<open>users\<close> count of every agent and tier entry should be the number of
  distinct users among the filtered events of that agent or tier. The set behind the
  count is created empty and never added to, so the count is 0: for the single event of
  user \<^verbatim>\<open>u1\<close> with NEXUS on tier pro, both entries report 0 users where one distinct
  user exists.
\<close>

theorem breakdown_users_always_zero:
  "map_sum id um_agent_breakdown (calculate_usage_metrics (Some one_event) 0 2000 None None)
     = Inr [(''NEXUS'', \<lparr>interactions = 1, tokens = 100, users = 0\<rparr>)]
   \<and> map_sum id um_tier_breakdown (calculate_usage_metrics (Some one_event) 0 2000 None None)
     = Inr [(''pro'', \<lparr>interactions = 1, tokens = 100, users = 0\<rparr>)]
   \<and> spec_agent_users one_event 0 2000 None None ''NEXUS'' = 1
   \<and> spec_tier_users one_event 0 2000 None None ''pro'' = 1"
  by (simp add: one_event_def metrics_defs Let_def)

subsection \<open>Peak hours\<close>

lemma hour_step_get:
  "dict_get (hour_step r d) h 0 =
     dict_get d h 0 + (if m_hour r = Some h then m_total_interactions r else 0)"
  by (cases "m_hour r") (simp_all add: hour_step_def dict_get_dict_set)

lemma hour_usage_fold_get:
  "dict_get (fold hour_step rows d) h 0 = dict_get d h 0 + hour_total rows h"
proof (induction rows arbitrary: d)
  case Nil
  then show ?case by (simp add: hour_total_def)
next
  case (Cons r rows)
  have "dict_get (fold hour_step (r # rows) d) h 0
          = dict_get (hour_step r d) h 0 + hour_total rows h"
    by (simp add: Cons.IH)
  also have "\<dots> = dict_get d h 0 + hour_total (r # rows) h"
    by (simp add: hour_step_get hour_total_def)
  finally show ?case .
qed

lemma hour_step_keys:
  "map fst (hour_step r d) =
     (case m_hour r of
        None \<Rightarrow> map fst d
      | Some h \<Rightarrow> if h \<in> set (map fst d) then map fst d else map fst d @ [h])"
  by (cases "m_hour r") (simp_all add: hour_step_def keys_dict_set)

lemma filter_removeAll_in: "\<not> P k \<Longrightarrow> filter P (removeAll k xs) = filter P xs"
  by (induction xs) auto

lemma filter_removeAll_notin:
  "filter P (removeAll k xs) = filter (\<lambda>x. P x \<and> x \<noteq> k) xs"
  by (induction xs) auto

lemma hours_seen_Cons:
  "hours_seen (r # rows) =
     (case m_hour r of
        None \<Rightarrow> hours_seen rows
      | Some h \<Rightarrow> h # removeAll h (hours_seen rows))"
  by (cases "m_hour r") (simp_all add: hours_seen_def)

lemma hour_usage_fold_keys:
  "map fst (fold hour_step rows d)
     = map fst d @ filter (\<lambda>h. h \<notin> set (map fst d)) (hours_seen rows)"
proof (induction rows arbitrary: d)
  case Nil
  then show ?case by (simp add: hours_seen_def)
next
  case (Cons r rows)
  have s: "map fst (fold hour_step (r # rows) d)
          = map fst (hour_step r d)
            @ filter (\<lambda>h. h \<notin> set (map fst (hour_step r d))) (hours_seen rows)"
    by (simp add: Cons.IH)
  show ?case
  proof (cases "m_hour r")
    case None
    then show ?thesis
      unfolding s by (simp add: hour_step_keys hours_seen_Cons)
  next
    case (Some k)
    show ?thesis
    proof (cases "k \<in> set (map fst d)")
      case True
      then show ?thesis
        unfolding s using Some
        by (simp add: hour_step_keys hours_seen_Cons filter_removeAll_in)
    next
      case False
      then show ?thesis
        unfolding s using Some
        by (simp add: hour_step_keys hours_seen_Cons filter_removeAll_notin conj_commute)
    qed
  qed
qed

lemma peak_hours_spec:
  "peak_hours rows = take 3 (sorted_reverse (hour_total rows) (hours_seen rows))"
proof -
  have k: "map fst (hour_usage rows) = hours_seen rows"
    by (simp add: hour_usage_def hour_usage_fold_keys)
  have v: "(\<lambda>h. dict_get (hour_usage rows) h 0) = hour_total rows"
  proof (rule ext)
    fix h
    have "dict_get (hour_usage rows) h 0 = dict_get [] h 0 + hour_total rows h"
      unfolding hour_usage_def by (rule hour_usage_fold_get)
    then show "dict_get (hour_usage rows) h 0 = hour_total rows h"
      by (simp add: dict_get_def)
  qed
  show ?thesis
    by (simp add: peak_hours_def k v)
qed

text \<open>
  C6, as stated, at a concrete input: hours 5 and 2 both have one interaction, hour 5
  occurs first in the rows, and the peak hours list hour 5 before the lower hour 2.
\<close>

theorem peak_hours_tie_not_by_hour:
  "map_sum id um_peak_hours
       (calculate_usage_metrics (Some tie_events) 0 86400000000 None None) = Inr [5, 2]
   \<and> map m_hour (main_query tie_events 0 86400000000 None None) = [Some 5, Some 2]
   \<and> hour_total (main_query tie_events 0 86400000000 None None) 5
       = hour_total (main_query tie_events 0 86400000000 None None) 2"
  by (simp add: tie_events_def metrics_defs hour_total_def Let_def)

text \<open>
  C6, amended. The peak hours are the first three entries (fewer when fewer hours
  occur) of the hours that occur in the rows, arranged in descending order of their
  summed interaction count; hours with equal count stay in the order in which they
  first occur in the rows of the grouped query.
\<close>

theorem peak_hours_stable_order:
  "\<exists>full. peak_hours rows = take 3 full
      \<and> mset full = mset (hours_seen rows)
      \<and> sorted_wrt (\<lambda>a b. hour_total rows a \<ge> hour_total rows b) full
      \<and> (\<forall>c. filter (\<lambda>h. hour_total rows h = c) full
               = filter (\<lambda>h. hour_total rows h = c) (hours_seen rows))"
  using peak_hours_spec[of rows] sorted_reverse_desc[of "hour_total rows" "hours_seen rows"]
    mset_sorted_reverse[of "hour_total rows" "hours_seen rows"]
    sorted_reverse_stable[of "hour_total rows" _ "hours_seen rows"]
  by blast

subsection \<open>Anomaly detection\<close>

lemma agent_data_step_keys:
  "distinct (map fst d) \<Longrightarrow> distinct (map fst (agent_data_step r d))"
  unfolding agent_data_step_def by (rule distinct_dict_set)

lemma agent_data_step_get:
  "dict_get (agent_data_step r d) a [] =
     (if a = dr_agent_id r then dict_get d a [] @ [entry_of r] else dict_get d a [])"
  unfolding agent_data_step_def by (simp add: dict_get_dict_set)

lemma agent_data_step_lookup:
  "map_of (agent_data_step r d) a =
     (if a = dr_agent_id r then Some (dict_get d a [] @ [entry_of r]) else map_of d a)"
  unfolding agent_data_step_def by (simp add: map_of_dict_set)

lemma agent_data_fold_distinct:
  "distinct (map fst d) \<Longrightarrow> distinct (map fst (fold agent_data_step rows d))"
  by (induction rows arbitrary: d) (simp_all add: agent_data_step_keys)

lemma agent_data_fold_lookup:
  "map_of (fold agent_data_step rows d) a =
     (if a \<in> dr_agent_id ` set rows then Some (dict_get d a [] @ agent_days rows a) else map_of d a)"
proof (induction rows arbitrary: d)
  case Nil
  then show ?case by simp
next
  case (Cons r rows)
  have "map_of (fold agent_data_step (r # rows) d) a
          = map_of (fold agent_data_step rows (agent_data_step r d)) a"
    by simp
  also have "\<dots> = (if a \<in> dr_agent_id ` set rows
                     then Some (dict_get (agent_data_step r d) a [] @ agent_days rows a)
                     else map_of (agent_data_step r d) a)"
    by (rule Cons.IH)
  also have "\<dots> = (if a \<in> dr_agent_id ` set (r # rows)
                     then Some (dict_get d a [] @ agent_days (r # rows) a) else map_of d a)"
  proof (cases "a = dr_agent_id r")
    case True
    have "agent_days rows a = []" if "a \<notin> dr_agent_id ` set rows"
      using that by (simp add: agent_days_def filter_empty_conv image_iff) blast
    then show ?thesis
      using True by (simp add: agent_data_step_get agent_data_step_lookup agent_days_def)
  next
    case False
    then show ?thesis
      by (simp add: agent_data_step_get agent_data_step_lookup agent_days_def)
  qed
  finally show ?case .
qed

lemma set_agent_data:
  "set (agent_data rows) = {(a, agent_days rows a) | a. a \<in> dr_agent_id ` set rows}"
proof -
  have d: "distinct (map fst (agent_data rows))"
    unfolding agent_data_def by (rule agent_data_fold_distinct) simp
  have l: "map_of (agent_data rows) a =
     (if a \<in> dr_agent_id ` set rows then Some (agent_days rows a) else None)" for a
    unfolding agent_data_def by (simp add: agent_data_fold_lookup dict_get_def)
  have "(a, v) \<in> set (agent_data rows) \<longleftrightarrow> map_of (agent_data rows) a = Some v" for a v
    using d by simp
  then have "(a, v) \<in> set (agent_data rows)
               \<longleftrightarrow> (a \<in> dr_agent_id ` set rows \<and> v = agent_days rows a)" for a v
    by (simp add: l eq_commute)
  then show ?thesis
    by (intro set_eqI) (auto simp: split_paired_all)
qed

lemma stdev_nonneg: "0 \<le> stdev xs"
proof -
  have "0 \<le> (\<Sum>x\<leftarrow>xs. (real_of_int x - mean xs)\<^sup>2)"
    by (rule sum_list_nonneg) auto
  then show ?thesis
    by (simp add: stdev_def variance_def)
qed

lemma stdev_pos_iff: "(0 < stdev xs) = (stdev xs \<noteq> 0)"
  using stdev_nonneg[of xs] by linarith
lemma day_anomalies_spec:
  assumes "3 \<le> length data" and "d \<in> set data"
  shows "day_anomalies a (mean (map d_interactions data)) (stdev (map d_interactions data))
                (mean (map d_tokens data)) (stdev (map d_tokens data)) d
     = (if spec_flagged data d_interactions d
        then [spec_anomaly ''interaction'' a data d_interactions d] else [])
     @ (if spec_flagged data d_tokens d
        then [spec_anomaly ''token'' a data d_tokens d] else [])"
  using assms
  by (simp add: day_anomalies_def spec_anomaly_def spec_flagged_def z_score_def Let_def
      stdev_pos_iff)

lemma agent_anomalies_spec:
  assumes "3 \<le> length data"
  shows "agent_anomalies a data
     = concat (map (\<lambda>d. (if spec_flagged data d_interactions d
                           then [spec_anomaly ''interaction'' a data d_interactions d] else [])
                        @ (if spec_flagged data d_tokens d
                           then [spec_anomaly ''token'' a data d_tokens d] else [])) data)"
proof -
  have "agent_anomalies a data
      = concat (map (day_anomalies a (mean (map d_interactions data))
                       (stdev (map d_interactions data))
                       (mean (map d_tokens data)) (stdev (map d_tokens data))) data)"
    using assms by (simp add: agent_anomalies_def Let_def)
  also have "\<dots> = concat (map (\<lambda>d. (if spec_flagged data d_interactions d
                           then [spec_anomaly ''interaction'' a data d_interactions d] else [])
                        @ (if spec_flagged data d_tokens d
                           then [spec_anomaly ''token'' a data d_tokens d] else [])) data)"
    by (rule arg_cong[where f = concat], rule map_cong[OF refl])
       (rule day_anomalies_spec[OF assms])
  finally show ?thesis .
qed

lemma in_agent_anomalies:
  "x \<in> set (agent_anomalies a data) \<longleftrightarrow>
     (\<exists>d. (x = spec_anomaly ''interaction'' a data d_interactions d
              \<and> spec_flagged data d_interactions d)
        \<or> (x = spec_anomaly ''token'' a data d_tokens d \<and> spec_flagged data d_tokens d))"
proof (cases "3 \<le> length data")
  case False
  then show ?thesis
    by (simp add: agent_anomalies_def spec_flagged_def)
next
  case True
  have m: "spec_flagged data f d \<Longrightarrow> d \<in> set data" for f d
    by (simp add: spec_flagged_def)
  show ?thesis
    unfolding agent_anomalies_spec[OF True] set_concat
    using m by (auto split: if_splits)
qed
lemma in_detect:
  "x \<in> set (detect_usage_anomalies (Some rows)) \<longleftrightarrow>
     (\<exists>a d. (x = spec_anomaly ''interaction'' a (agent_days rows a) d_interactions d
                \<and> spec_flagged (agent_days rows a) d_interactions d)
          \<or> (x = spec_anomaly ''token'' a (agent_days rows a) d_tokens d
                \<and> spec_flagged (agent_days rows a) d_tokens d))"
proof -
  have e: "\<not> spec_flagged (agent_days rows a) m d" if "a \<notin> dr_agent_id ` set rows" for a m d
  proof -
    from that have "agent_days rows a = []"
      by (simp add: agent_days_def filter_empty_conv image_iff) blast
    then show ?thesis by (simp add: spec_flagged_def)
  qed
  have "x \<in> set (detect_usage_anomalies (Some rows))
      \<longleftrightarrow> (\<exists>kv \<in> set (agent_data rows). x \<in> set (agent_anomalies (fst kv) (snd kv)))"
    by (simp add: detect_usage_anomalies_def)
  also have "\<dots> \<longleftrightarrow> (\<exists>a \<in> dr_agent_id ` set rows. x \<in> set (agent_anomalies a (agent_days rows a)))"
    unfolding set_agent_data by (simp add: Bex_def)
  also have "\<dots> \<longleftrightarrow> (\<exists>a. x \<in> set (agent_anomalies a (agent_days rows a)))"
    using e unfolding in_agent_anomalies by blast
  also have "\<dots> \<longleftrightarrow> (\<exists>a d. (x = spec_anomaly ''interaction'' a (agent_days rows a) d_interactions d
                \<and> spec_flagged (agent_days rows a) d_interactions d)
          \<or> (x = spec_anomaly ''token'' a (agent_days rows a) d_tokens d
                \<and> spec_flagged (agent_days rows a) d_tokens d))"
    unfolding in_agent_anomalies by (rule refl)
  finally show ?thesis .
qed

lemma stdev_const:
  assumes "\<forall>x \<in> set xs. x = c"
  shows "stdev xs = 0"
proof -
  have xs: "xs = replicate (length xs) c"
    using assms by (simp add: replicate_length_same)
  have m: "real_of_int x - mean xs = 0" if "x \<in> set xs" for x
  proof -
    from that have n: "length xs \<noteq> 0" by auto
    have "sum_list xs = int (length xs) * c"
      by (subst xs) (simp add: sum_list_replicate)
    then have "mean xs = real_of_int c"
      using n by (simp add: mean_def)
    with that assms show ?thesis by simp
  qed
  have "(\<Sum>x\<leftarrow>xs. (real_of_int x - mean xs)\<^sup>2) = (\<Sum>x\<leftarrow>xs. 0)"
    by (rule arg_cong[where f = sum_list], rule map_cong[OF refl]) (simp add: m)
  then show ?thesis
    by (simp add: stdev_def variance_def)
qed

lemma constant_not_flagged:
  assumes "\<forall>r \<in> set rows. dr_agent_id r = a \<longrightarrow> daily_interactions r = c"
  shows "\<not> spec_flagged (agent_days rows a) d_interactions d"
proof -
  have "\<forall>x \<in> set (map d_interactions (agent_days rows a)). x = c"
    using assms by (auto simp: agent_days_def entry_of_def)
  then have "stdev (map d_interactions (agent_days rows a)) = 0"
    by (rule stdev_const)
  then show ?thesis by (simp add: spec_flagged_def)
qed

lemma spec_anomaly_fields:
  "an_agent_id (spec_anomaly k a data m d) = a"
  "an_type (spec_anomaly ''token'' a data m d) \<noteq> ''interaction_spike''"
  "an_type (spec_anomaly ''token'' a data m d) \<noteq> ''interaction_drop''"
  by (simp_all add: spec_anomaly_def)

lemma less_div_sqrt:
  assumes "0 < v" and "0 \<le> c" and "0 \<le> y"
  shows "(c < y / sqrt v) = (c\<^sup>2 * v < y\<^sup>2)"
proof -
  have "(c < y / sqrt v) = (c * sqrt v < y)"
    using assms(1) by (simp add: pos_less_divide_eq)
  also have "\<dots> = (sqrt (c\<^sup>2 * v) < sqrt (y\<^sup>2))"
    using assms by (simp add: real_sqrt_mult)
  also have "\<dots> = (c\<^sup>2 * v < y\<^sup>2)"
    by (rule real_sqrt_less_iff)
  finally show ?thesis .
qed

lemmas anomaly_defs =
  detect_usage_anomalies_def agent_data_def agent_data_step_def dict_get_def entry_of_def
  agent_anomalies_def day_anomalies_def mean_def stdev_def variance_def

lemma detect_six_days:
  "detect_usage_anomalies (Some six_days) =
     [\<lparr>an_type = ''interaction_spike'', an_agent_id = ''NEXUS'', an_date = 6, an_value = 100,
       an_expected = 25, an_severity = ''medium''\<rparr>]"
  by (simp add: six_days_def anomaly_defs Let_def less_div_sqrt)

lemma detect_five_days: "detect_usage_anomalies (Some five_days) = []"
  by (simp add: five_days_def anomaly_defs Let_def less_div_sqrt)

text \<open>
  C7, as stated, at a concrete input: for the daily counts 10, 10, 10, 10, 100 the mean
  is 28 and the sample standard deviation is the root of 1620, so the z-score of the
  last day is below 2 and nothing is flagged. (With \<open>n\<close> days the largest possible
  z-score is \<open>(n - 1) / sqrt n\<close>, which exceeds 2 from six days on only.)
\<close>

theorem detect_usage_anomalies_five_days:
  "map daily_interactions five_days = [10, 10, 10, 10, 100]
   \<and> detect_usage_anomalies (Some five_days) = []
   \<and> z_score 100 [10, 10, 10, 10, 100] = 72 / sqrt 1620
   \<and> \<not> z_score 100 [10, 10, 10, 10, 100] > 2"
  by (simp add: five_days_def anomaly_defs Let_def less_div_sqrt z_score_def)

text \<open>
  C7, amended. An anomaly is reported exactly for an agent, a day of that agent and a
  metric (interactions or tokens) such that the agent has at least three days of data,
  the sample standard deviation of the metric over the agent's days is not zero and
  the z-score of the day exceeds 2; it is a spike iff the value exceeds the mean, a
  drop otherwise, and its severity is high iff the z-score exceeds 3, medium otherwise.
  An agent whose interaction counts are all equal gets no interaction anomaly. The daily
  counts 10, 10, 10, 10, 10, 100 flag the last day as an interaction spike; the counts
  10, 10, 10, 10, 100 flag nothing.
\<close>

theorem detect_usage_anomalies_flags:
  "(x \<in> set (detect_usage_anomalies (Some rows)) \<longleftrightarrow>
     (\<exists>a d. (x = spec_anomaly ''interaction'' a (agent_days rows a) d_interactions d
                \<and> spec_flagged (agent_days rows a) d_interactions d)
          \<or> (x = spec_anomaly ''token'' a (agent_days rows a) d_tokens d
                \<and> spec_flagged (agent_days rows a) d_tokens d)))
   \<and> ((\<forall>r \<in> set rows. dr_agent_id r = a \<longrightarrow> daily_interactions r = c) \<longrightarrow>
        (\<forall>y \<in> set (detect_usage_anomalies (Some rows)). an_agent_id y = a \<longrightarrow>
            an_type y \<noteq> ''interaction_spike'' \<and> an_type y \<noteq> ''interaction_drop''))
   \<and> detect_usage_anomalies (Some six_days) =
        [\<lparr>an_type = ''interaction_spike'', an_agent_id = ''NEXUS'', an_date = 6, an_value = 100,
          an_expected = 25, an_severity = ''medium''\<rparr>]
   \<and> detect_usage_anomalies (Some five_days) = []"
proof -
  have const: "an_type y \<noteq> ''interaction_spike'' \<and> an_type y \<noteq> ''interaction_drop''"
    if h: "\<forall>r \<in> set rows. dr_agent_id r = a \<longrightarrow> daily_interactions r = c"
      and y: "y \<in> set (detect_usage_anomalies (Some rows))" and ya: "an_agent_id y = a" for y
  proof -
    from y obtain a' d where
      "(y = spec_anomaly ''interaction'' a' (agent_days rows a') d_interactions d
                \<and> spec_flagged (agent_days rows a') d_interactions d)
          \<or> (y = spec_anomaly ''token'' a' (agent_days rows a') d_tokens d
                \<and> spec_flagged (agent_days rows a') d_tokens d)"
      unfolding in_detect by blast
    then show ?thesis
    proof
      assume i: "y = spec_anomaly ''interaction'' a' (agent_days rows a') d_interactions d
                \<and> spec_flagged (agent_days rows a') d_interactions d"
      with ya have "a' = a" by (simp add: spec_anomaly_fields)
      with i constant_not_flagged[OF h] show ?thesis by blast
    next
      assume "y = spec_anomaly ''token'' a' (agent_days rows a') d_tokens d
                \<and> spec_flagged (agent_days rows a') d_tokens d"
      then show ?thesis by (simp add: spec_anomaly_fields)
    qed
  qed
  show ?thesis
    using in_detect[of x rows] const detect_six_days detect_five_days by blast
qed

theorem detect_usage_anomalies_flags_witness:
  "map dr_agent_id four_days = [''NEXUS'', ''NEXUS'', ''NEXUS'', ''NEXUS'']
   \<and> map daily_interactions four_days = [10, 10, 10, 10]
   \<and> filter (\<lambda>y. an_agent_id y = ''NEXUS''
                  \<and> (an_type y = ''interaction_spike'' \<or> an_type y = ''interaction_drop''))
         (detect_usage_anomalies (Some four_days)) = []
   \<and> (\<exists>a d. (\<lparr>an_type = ''interaction_spike'', an_agent_id = ''NEXUS'', an_date = 6,
                 an_value = 100, an_expected = 25, an_severity = ''medium''\<rparr>
                  = spec_anomaly ''interaction'' a (agent_days six_days a) d_interactions d
                \<and> spec_flagged (agent_days six_days a) d_interactions d)
          \<or> (\<lparr>an_type = ''interaction_spike'', an_agent_id = ''NEXUS'', an_date = 6,
                 an_value = 100, an_expected = 25, an_severity = ''medium''\<rparr>
                  = spec_anomaly ''token'' a (agent_days six_days a) d_tokens d
                \<and> spec_flagged (agent_days six_days a) d_tokens d))"
proof -
  let ?x = "\<lparr>an_type = ''interaction_spike'', an_agent_id = ''NEXUS'', an_date = 6,
             an_value = 100, an_expected = 25, an_severity = ''medium''\<rparr>"
  have a: "map dr_agent_id four_days = [''NEXUS'', ''NEXUS'', ''NEXUS'', ''NEXUS'']"
    by (simp add: four_days_def)
  have i: "map daily_interactions four_days = [10, 10, 10, 10]"
    by (simp add: four_days_def)
  have h: "\<forall>r \<in> set four_days. dr_agent_id r = ''NEXUS'' \<longrightarrow> daily_interactions r = 10"
    by (simp add: four_days_def)
  have c: "\<forall>y \<in> set (detect_usage_anomalies (Some four_days)). an_agent_id y = ''NEXUS'' \<longrightarrow>
             an_type y \<noteq> ''interaction_spike'' \<and> an_type y \<noteq> ''interaction_drop''"
    by (rule detect_usage_anomalies_flags[of ?x four_days "''NEXUS''" 10,
          THEN conjunct2, THEN conjunct1, THEN mp, OF h])
  have n: "filter (\<lambda>y. an_agent_id y = ''NEXUS''
                  \<and> (an_type y = ''interaction_spike'' \<or> an_type y = ''interaction_drop''))
         (detect_usage_anomalies (Some four_days)) = []"
    unfolding filter_empty_conv using c by blast
  have m: "?x \<in> set (detect_usage_anomalies (Some six_days))"
    by (simp add: detect_six_days)
  have f: "\<exists>a d. (?x = spec_anomaly ''interaction'' a (agent_days six_days a) d_interactions d
                \<and> spec_flagged (agent_days six_days a) d_interactions d)
          \<or> (?x = spec_anomaly ''token'' a (agent_days six_days a) d_tokens d
                \<and> spec_flagged (agent_days six_days a) d_tokens d)"
    by (rule detect_usage_anomalies_flags[of ?x six_days "''NEXUS''" 10,
          THEN conjunct1, THEN iffD1, OF m])
  from a i n f show ?thesis
    by (intro conjI)
qed

subsection \<open>User insights\<close>

lemma user_query_empty:
  assumes "\<not> (\<exists>e \<in> set events. ev_user_id e = uid \<and> ev_timestamp e \<ge> start_date)"
  shows "user_query events uid start_date = []"
proof -
  have "filter (\<lambda>e. ev_user_id e = uid \<and> ev_timestamp e \<ge> start_date) events = []"
    using assms by (simp add: filter_empty_conv)
  then show ?thesis
    by (simp add: user_query_def)
qed

lemmas insight_defs =
  generate_user_insights_def user_query_def user_group_def fetchrow_def tier_limit_def
  tier_limits_def mean_real_def date_of_def days_def

text \<open>The other branch, on an example with exact arithmetic in place of the rounding:
  one event of 100 tokens on tier pro, seen one millisecond later, gives a score of
  about 5.2, hence the risk level critical, and two recommendations.\<close>

lemma generate_user_insights_exact_example:
  "map_sum id subscription_tier
       (generate_user_insights (\<lambda>x. x) (Some one_event) 2000 upgrade_text ''u1'')
       = Inr ''pro''
   \<and> map_sum id risk_level
       (generate_user_insights (\<lambda>x. x) (Some one_event) 2000 upgrade_text ''u1'')
       = Inr ''critical''
   \<and> map_sum id recommendations
       (generate_user_insights (\<lambda>x. x) (Some one_event) 2000 upgrade_text ''u1'')
       = Inr [''Explore more agents to maximize value'', ''Increase engagement frequency'']
   \<and> map_sum id upgrade_opportunity
       (generate_user_insights (\<lambda>x. x) (Some one_event) 2000 upgrade_text ''u1'')
       = Inr False"
  by (simp add: one_event_def insight_defs Let_def)

text \<open>
  C8. For a user without usage events in the trailing 30 days,
  \<^verbatim>\<open>generate_user_insights\<close> returns the degenerate insight: score 0, risk level
  critical, churn probability 0.95 (the double that the literal denotes), the single
  recommendation to re-engage the user and no upgrade opportunity.
\<close>

theorem generate_user_insights_no_events:
  assumes "\<not> (\<exists>e \<in> set events. ev_user_id e = uid \<and> ev_timestamp e \<ge> now - days 30)"
  shows "generate_user_insights fl (Some events) now fmt uid =
           Inr \<lparr>ins_user_id = uid, subscription_tier = ''unknown'', usage_score = 0,
                risk_level = ''critical'',
                recommendations = [''Re-engage user with personalized content''],
                predicted_churn_probability = fl (95 / 100), upgrade_opportunity = False,
                efficiency_metrics = []\<rparr>"
  using user_query_empty[OF assms]
  by (simp add: generate_user_insights_def fetchrow_def Let_def)

theorem generate_user_insights_no_events_witness:
  "\<not> (\<exists>e \<in> set one_event. ev_user_id e = ''u1'' \<and> ev_timestamp e \<ge> days 40 - days 30)
   \<and> generate_user_insights (\<lambda>x. x) (Some one_event) (days 40) upgrade_text ''u1'' =
           Inr \<lparr>ins_user_id = ''u1'', subscription_tier = ''unknown'', usage_score = 0,
                risk_level = ''critical'',
                recommendations = [''Re-engage user with personalized content''],
                predicted_churn_probability = 95 / 100, upgrade_opportunity = False,
                efficiency_metrics = []\<rparr>"
proof -
  have h: "\<not> (\<exists>e \<in> set one_event. ev_user_id e = ''u1'' \<and> ev_timestamp e \<ge> days 40 - days 30)"
    by (simp add: one_event_def days_def)
  show ?thesis
    using h generate_user_insights_no_events[OF h, of "\<lambda>x. x" upgrade_text] by simp
qed

section \<open>Properties of the broadcast\<close>

text \<open>
  C9. A connection whose send raises should be removed without affecting the others.
  Removing it shifts the rest of the list under the running iterator, which then skips
  the next connection: with connections 1 and 2 registered and 1 closed, connection 1
  is removed and connection 2 does not receive the message; it receives the next
  broadcast. With a third connection behind them, only that one receives the message.
\<close>

theorem broadcast_skips_next_connection:
  "broadcast closed_one [1, 2] = ([2], [])
   \<and> broadcast closed_one [2] = ([2], [2])
   \<and> broadcast closed_one [1, 2, 3] = ([2, 3], [3])"
  by (simp add: broadcast_def closed_one_def)

end
